theory Spec2Isabelle
  imports Complex_Main
begin

section \<open>Values, errors and strings\<close>

text \<open>
  The ledger of \<^verbatim>\<open>core/database.py\<close> is a set of Python functions over an SQLite file.
  Each function is modelled as a function from the database before the call to the
  outcome of the call and the database after it. An outcome is \<open>Inr\<close> for a normal
  return and \<open>Inl\<close> for a raised exception; the database after a raised exception is
  part of the result, because a statement committed before the \<^verbatim>\<open>raise\<close> stays.

  Python's \<^verbatim>\<open>float\<close> (SQLite's \<^verbatim>\<open>REAL\<close>) is modelled by \<open>real\<close>: prices and amounts are
  exact numbers here, rounding is not modelled. Python's \<^verbatim>\<open>int\<close> (SQLite's
  \<^verbatim>\<open>INTEGER\<close>) is \<open>int\<close>. An optional argument (\<^verbatim>\<open>= None\<close>) is an \<open>option\<close>.
  The formatted parts of the exception messages (ids, counts) are left out of the
  message text.
\<close>

datatype error =
    ValueError string
  | IntegrityError string
  | OperationalError string

text \<open>
  \<^verbatim>\<open>str.strip()\<close> removes leading and trailing white space. A character is read as
  its code point; the white space below is Python's \<^verbatim>\<open>str.isspace\<close> on the code
  points under 256.
\<close>

definition is_space :: "char \<Rightarrow> bool" where
  "is_space c \<longleftrightarrow>
     (of_char c :: nat) \<in> set [9, 10, 11, 12, 13, 28, 29, 30, 31, 32, 133, 160]"

definition strip :: "string \<Rightarrow> string" where
  "strip s = rev (dropWhile is_space (rev (dropWhile is_space s)))"

section \<open>Tables\<close>

text \<open>
  One record per table row. The columns the storage engine fills in by itself
  (\<^verbatim>\<open>created_at\<close>, \<^verbatim>\<open>date\<close>, \<^verbatim>\<open>received_date\<close> and the autoincrement \<^verbatim>\<open>id\<close> of
  \<^verbatim>\<open>sales\<close> and \<^verbatim>\<open>dues_received\<close>) are not modelled: a row's place in the list stands
  for its autoincrement id. The field names are the column names behind a table prefix.

  \<^verbatim>\<open>products\<close> has \<^verbatim>\<open>id TEXT PRIMARY KEY\<close>, so the table is a map from the id to the row.
  \<^verbatim>\<open>sales\<close> and \<^verbatim>\<open>dues_received\<close> are only ever appended to, so they are lists in
  insertion order. \<^verbatim>\<open>sales.product_id\<close> is declared \<^verbatim>\<open>INTEGER\<close>: the engine stores an id
  that reads as a number as that number, where the record keeps the text that was
  passed.
\<close>

record product =
  p_id :: string
  p_name :: string
  p_company :: string
  p_cost_price :: real
  p_quantity :: int
  p_warehouse_quantity :: int
  p_store_quantity :: int

record sale =
  s_sale_type :: string
  s_customer_name :: "string option"
  s_product_id :: string
  s_product_name :: string
  s_selling_price :: real
  s_cost_price :: real
  s_quantity :: int
  s_total :: real
  s_profit :: real
  s_paid_amount :: real
  s_due_amount :: real

record dues_payment =
  d_customer_name :: string
  d_amount_received :: real
  d_notes :: string

record db =
  products :: "string \<rightharpoonup> product"
  sales :: "sale list"
  dues_received :: "dues_payment list"

type_synonym 'a outcome = "(error + 'a) \<times> db"

definition empty_db :: db where
  "empty_db = \<lparr>products = Map.empty, sales = [], dues_received = []\<rparr>"

section \<open>SQL statements of the ledger\<close>

text \<open>
  The \<^verbatim>\<open>CHECK\<close> constraints of \<^verbatim>\<open>_create_products_table\<close>: a row that breaks one makes
  the statement fail with \<^verbatim>\<open>sqlite3.IntegrityError\<close>, and the connection manager rolls
  back.
\<close>

definition products_check :: "product \<Rightarrow> bool" where
  "products_check p \<longleftrightarrow>
     0 \<le> p_cost_price p \<and> 0 \<le> p_quantity p \<and>
     0 \<le> p_warehouse_quantity p \<and> 0 \<le> p_store_quantity p"

text \<open>\<^verbatim>\<open>INSERT INTO products (...) VALUES (...)\<close>, with the primary key's uniqueness.\<close>

definition insert_product :: "product \<Rightarrow> db \<Rightarrow> unit outcome" where
  "insert_product row d =
     (if products d (p_id row) \<noteq> None then
        (Inl (IntegrityError ''UNIQUE constraint failed: products.id''), d)
      else if \<not> products_check row then
        (Inl (IntegrityError ''CHECK constraint failed''), d)
      else (Inr (), d\<lparr>products := (products d)(p_id row \<mapsto> row)\<rparr>))"

text \<open>
  \<^verbatim>\<open>UPDATE products SET name = ?, company = ?, cost_price = ?, quantity = ?,
  warehouse_quantity = ?, store_quantity = ? WHERE id = ?\<close>. With no row of that id the
  statement changes nothing and succeeds.
\<close>

definition sql_update_product ::
  "string \<Rightarrow> string \<Rightarrow> string \<Rightarrow> real \<Rightarrow> int \<Rightarrow> int \<Rightarrow> int \<Rightarrow> db \<Rightarrow> unit outcome" where
  "sql_update_product product_id name company cost_price quantity warehouse_quantity
       store_quantity d =
     (case products d product_id of
        None \<Rightarrow> (Inr (), d)
      | Some old \<Rightarrow>
          (let row = old\<lparr>p_name := name, p_company := company, p_cost_price := cost_price,
                          p_quantity := quantity, p_warehouse_quantity := warehouse_quantity,
                          p_store_quantity := store_quantity\<rparr>
           in if \<not> products_check row then
                (Inl (IntegrityError ''CHECK constraint failed''), d)
              else (Inr (), d\<lparr>products := (products d)(product_id \<mapsto> row)\<rparr>)))"

text \<open>The \<^verbatim>\<open>CHECK\<close> constraints of \<^verbatim>\<open>_create_sales_table\<close>.\<close>

definition sales_check :: "sale \<Rightarrow> bool" where
  "sales_check s \<longleftrightarrow>
     s_sale_type s \<in> set [''retail'', ''wholesale''] \<and>
     0 \<le> s_selling_price s \<and> 0 \<le> s_cost_price s \<and> 0 \<le> s_quantity s \<and>
     0 \<le> s_paid_amount s"

definition insert_sale :: "sale \<Rightarrow> db \<Rightarrow> unit outcome" where
  "insert_sale row d =
     (if \<not> sales_check row then (Inl (IntegrityError ''CHECK constraint failed''), d)
      else (Inr (), d\<lparr>sales := sales d @ [row]\<rparr>))"

text \<open>The \<^verbatim>\<open>CHECK\<close> constraint of \<^verbatim>\<open>_create_dues_received_table\<close>.\<close>

definition insert_dues_received :: "dues_payment \<Rightarrow> db \<Rightarrow> unit outcome" where
  "insert_dues_received row d =
     (if \<not> 0 \<le> d_amount_received row then
        (Inl (IntegrityError ''CHECK constraint failed''), d)
      else (Inr (), d\<lparr>dues_received := dues_received d @ [row]\<rparr>))"

section \<open>Product functions\<close>

text \<open>\<^verbatim>\<open>get_product_by_id\<close>: \<^verbatim>\<open>SELECT * FROM products WHERE id = ?\<close>, the row or \<^verbatim>\<open>None\<close>.\<close>

definition get_product_by_id :: "db \<Rightarrow> string \<Rightarrow> product option" where
  "get_product_by_id d product_id = products d product_id"

text \<open>
  \<^verbatim>\<open>add_product\<close>. The source returns \<^verbatim>\<open>cursor.lastrowid\<close>, a number of the storage
  engine that no caller reads; the model returns \<open>()\<close>.
\<close>

definition add_product ::
  "string \<Rightarrow> string \<Rightarrow> string \<Rightarrow> real \<Rightarrow> int \<Rightarrow> int option \<Rightarrow> int option \<Rightarrow> db
     \<Rightarrow> unit outcome" where
  "add_product product_id name company cost_price quantity warehouse_quantity
       store_quantity d =
     (if strip product_id = [] then
        (Inl (ValueError ''Product id is required and cannot be empty''), d)
      else if cost_price < 0 \<or> quantity < 0 then
        (Inl (ValueError ''cost_price and quantity must be non-negative.''), d)
      else if strip name = [] \<or> strip company = [] then
        (Inl (ValueError ''Product name and company are required.''), d)
      else
        (let warehouse_quantity' =
               (case warehouse_quantity of None \<Rightarrow> quantity | Some w \<Rightarrow> w);
             store_quantity' = (case store_quantity of None \<Rightarrow> 0 | Some s \<Rightarrow> s)
         in if warehouse_quantity' < 0 \<or> store_quantity' < 0 then
              (Inl (ValueError
                 ''warehouse_quantity and store_quantity must be non-negative.''), d)
            else if warehouse_quantity' + store_quantity' \<noteq> quantity then
              (Inl (ValueError
                 ''warehouse_quantity + store_quantity must equal total quantity''), d)
            else insert_product
                   \<lparr>p_id = strip product_id, p_name = strip name,
                    p_company = strip company, p_cost_price = cost_price,
                    p_quantity = quantity, p_warehouse_quantity = warehouse_quantity',
                    p_store_quantity = store_quantity'\<rparr> d))"

text \<open>\<^verbatim>\<open>update_product\<close>: an omitted quantity is read from the current row.\<close>

definition update_product ::
  "string \<Rightarrow> string \<Rightarrow> string \<Rightarrow> real \<Rightarrow> int option \<Rightarrow> int option \<Rightarrow> int option \<Rightarrow> db
     \<Rightarrow> unit outcome" where
  "update_product product_id name company cost_price quantity warehouse_quantity
       store_quantity d =
     (if cost_price < 0 then (Inl (ValueError ''cost_price must be non-negative.''), d)
      else if strip name = [] \<or> strip company = [] then
        (Inl (ValueError ''Product name and company are required.''), d)
      else
        (case get_product_by_id d product_id of
           None \<Rightarrow> (Inl (ValueError ''Product not found''), d)
         | Some current \<Rightarrow>
             (let quantity' = (case quantity of None \<Rightarrow> p_quantity current | Some q \<Rightarrow> q);
                  warehouse_quantity' =
                    (case warehouse_quantity of
                       None \<Rightarrow> p_warehouse_quantity current | Some w \<Rightarrow> w);
                  store_quantity' =
                    (case store_quantity of
                       None \<Rightarrow> p_store_quantity current | Some s \<Rightarrow> s)
              in if quantity' < 0 \<or> warehouse_quantity' < 0 \<or> store_quantity' < 0 then
                   (Inl (ValueError ''All quantities must be non-negative.''), d)
                 else if warehouse_quantity' + store_quantity' \<noteq> quantity' then
                   (Inl (ValueError
                      ''warehouse_quantity + store_quantity must equal total quantity''), d)
                 else sql_update_product product_id (strip name) (strip company)
                        cost_price quantity' warehouse_quantity' store_quantity' d)))"

text \<open>\<^verbatim>\<open>delete_product\<close>: a delete that matches no row raises after the commit.\<close>

definition delete_product :: "string \<Rightarrow> db \<Rightarrow> unit outcome" where
  "delete_product product_id d =
     (case products d product_id of
        None \<Rightarrow> (Inl (ValueError ''Product not found''), d)
      | Some _ \<Rightarrow> (Inr (), d\<lparr>products := (products d)(product_id := None)\<rparr>))"

section \<open>Sales\<close>

text \<open>
  \<^verbatim>\<open>add_sale\<close>. The insert is committed (\<^verbatim>\<open>conn.commit()\<close>) before the product is
  looked up; the two \<^verbatim>\<open>raise ValueError\<close> after it and a failing \<^verbatim>\<open>update_product\<close>
  leave through the connection manager, which rolls back on \<^verbatim>\<open>sqlite3.Error\<close> only
  and has nothing left to roll back. So those branches return the database with the
  sale row in it. The source annotates \<^verbatim>\<open>product_id\<close> as \<^verbatim>\<open>int\<close>, but the value is
  compared with the \<^verbatim>\<open>TEXT\<close> key of \<^verbatim>\<open>products\<close> and the sales page passes a product's
  id, so it is a string here.
\<close>

definition add_sale ::
  "string \<Rightarrow> string \<Rightarrow> string \<Rightarrow> real \<Rightarrow> real \<Rightarrow> int \<Rightarrow> real \<Rightarrow> string option \<Rightarrow> db
     \<Rightarrow> unit outcome" where
  "add_sale sale_type product_id product_name selling_price cost_price quantity
       paid_amount customer_name d =
     (let total = selling_price * of_int quantity;
          profit = (selling_price - cost_price) * of_int quantity;
          due_amount = total - paid_amount
      in if due_amount < 0 then
           (Inl (ValueError ''Paid amount cannot exceed total amount''), d)
         else
           (case insert_sale
                   \<lparr>s_sale_type = sale_type, s_customer_name = customer_name,
                    s_product_id = product_id, s_product_name = product_name,
                    s_selling_price = selling_price, s_cost_price = cost_price,
                    s_quantity = quantity, s_total = total, s_profit = profit,
                    s_paid_amount = paid_amount, s_due_amount = due_amount\<rparr> d of
              (Inl e, d1) \<Rightarrow> (Inl e, d1)
            | (Inr _, d1) \<Rightarrow>
                (case get_product_by_id d1 product_id of
                   None \<Rightarrow> (Inl (ValueError ''Product not found''), d1)
                 | Some prod_row \<Rightarrow>
                     (let current_store_qty = p_store_quantity prod_row
                      in if current_store_qty < quantity then
                           (Inl (ValueError ''Not enough stock in store''), d1)
                         else
                           (let new_store_quantity = current_store_qty - quantity;
                                new_total_quantity = p_quantity prod_row - quantity
                            in update_product product_id (p_name prod_row) (p_company prod_row)
                                 (p_cost_price prod_row) (Some new_total_quantity)
                                 (Some (p_warehouse_quantity prod_row))
                                 (Some new_store_quantity) d1)))))"

text \<open>The row that \<^verbatim>\<open>add_sale\<close> hands to its \<^verbatim>\<open>INSERT\<close>, as a function of the arguments.\<close>

definition sale_row ::
  "string \<Rightarrow> string \<Rightarrow> string \<Rightarrow> real \<Rightarrow> real \<Rightarrow> int \<Rightarrow> real \<Rightarrow> string option \<Rightarrow> sale" where
  "sale_row sale_type product_id product_name selling_price cost_price quantity paid_amount
       customer_name =
     \<lparr>s_sale_type = sale_type, s_customer_name = customer_name,
      s_product_id = product_id, s_product_name = product_name,
      s_selling_price = selling_price, s_cost_price = cost_price,
      s_quantity = quantity, s_total = selling_price * of_int quantity,
      s_profit = (selling_price - cost_price) * of_int quantity,
      s_paid_amount = paid_amount,
      s_due_amount = selling_price * of_int quantity - paid_amount\<rparr>"

section \<open>Customer dues\<close>

text \<open>\<^verbatim>\<open>add_dues_payment\<close>: a plain insert after two checks.\<close>

definition add_dues_payment :: "string \<Rightarrow> real \<Rightarrow> string \<Rightarrow> db \<Rightarrow> unit outcome" where
  "add_dues_payment customer_name amount notes d =
     (if amount \<le> 0 then (Inl (ValueError ''Payment amount must be positive''), d)
      else if strip customer_name = [] then
        (Inl (ValueError ''Customer name is required''), d)
      else insert_dues_received
             \<lparr>d_customer_name = strip customer_name, d_amount_received = amount,
              d_notes = strip notes\<rparr> d)"

text \<open>\<^verbatim>\<open>COALESCE(SUM(x), 0)\<close>: the sum of no rows is \<^verbatim>\<open>NULL\<close>, which becomes 0.\<close>

definition coalesce_sum :: "real list \<Rightarrow> real" where
  "coalesce_sum xs = (case xs of [] \<Rightarrow> 0 | _ \<Rightarrow> sum_list xs)"

text \<open>
  \<^verbatim>\<open>get_customer_dues_by_name\<close>: the two queries and \<^verbatim>\<open>max(0, ...)\<close>. A \<^verbatim>\<open>NULL\<close>
  customer name equals no parameter. The branch that returns 0.0 on a storage error
  has no counterpart, since the tables of the model are always readable.
\<close>

definition get_customer_dues_by_name :: "string \<Rightarrow> db \<Rightarrow> real" where
  "get_customer_dues_by_name customer_name d =
     (let total_dues =
            coalesce_sum (map s_due_amount
              (filter (\<lambda>s. s_sale_type s = ''wholesale'' \<and>
                           s_customer_name s = Some customer_name \<and> 0 < s_due_amount s)
                 (sales d)));
          total_received =
            coalesce_sum (map d_amount_received
              (filter (\<lambda>r. d_customer_name r = customer_name) (dues_received d)))
      in max 0 (total_dues - total_received))"

section \<open>Inventory transfer\<close>

text \<open>\<^verbatim>\<open>transfer_inventory\<close>; \<^verbatim>\<open>notes\<close> is an argument the source never reads.\<close>

definition transfer_inventory ::
  "string \<Rightarrow> string \<Rightarrow> string \<Rightarrow> int \<Rightarrow> string \<Rightarrow> db \<Rightarrow> unit outcome" where
  "transfer_inventory product_id from_location to_location quantity notes d =
     (if quantity \<le> 0 then (Inl (ValueError ''Transfer quantity must be positive''), d)
      else if from_location \<notin> set [''warehouse'', ''store''] \<or>
              to_location \<notin> set [''warehouse'', ''store''] then
        (Inl (ValueError ''Locations must be warehouse or store''), d)
      else if from_location = to_location then
        (Inl (ValueError ''Source and destination locations must be different''), d)
      else
        (case get_product_by_id d product_id of
           None \<Rightarrow> (Inl (ValueError ''Product not found''), d)
         | Some prod_row \<Rightarrow>
             if from_location = ''warehouse'' \<and> p_warehouse_quantity prod_row < quantity then
               (Inl (ValueError ''Not enough stock in warehouse''), d)
             else if from_location \<noteq> ''warehouse'' \<and> p_store_quantity prod_row < quantity then
               (Inl (ValueError ''Not enough stock in store''), d)
             else
               (let new_warehouse_qty =
                      (if from_location = ''warehouse''
                       then p_warehouse_quantity prod_row - quantity
                       else p_warehouse_quantity prod_row + quantity);
                    new_store_qty =
                      (if from_location = ''warehouse''
                       then p_store_quantity prod_row + quantity
                       else p_store_quantity prod_row - quantity);
                    total_quantity = p_quantity prod_row
                in update_product product_id (p_name prod_row) (p_company prod_row)
                     (p_cost_price prod_row) (Some total_quantity) (Some new_warehouse_qty)
                     (Some new_store_qty) d)))"

section \<open>Predicates of the specification\<close>

text \<open>
  The quantity invariant of a product row: the two location quantities add up to the
  total, and none of the three is negative.
\<close>

definition split_ok :: "int \<Rightarrow> int \<Rightarrow> int \<Rightarrow> bool" where
  "split_ok quantity warehouse_quantity store_quantity \<longleftrightarrow>
     warehouse_quantity + store_quantity = quantity \<and> 0 \<le> quantity \<and>
     0 \<le> warehouse_quantity \<and> 0 \<le> store_quantity"

definition quantity_invariant :: "product \<Rightarrow> bool" where
  "quantity_invariant p \<longleftrightarrow>
     split_ok (p_quantity p) (p_warehouse_quantity p) (p_store_quantity p)"

text \<open>
  \<^verbatim>\<open>add_product\<close> and \<^verbatim>\<open>update_product\<close> store \<^verbatim>\<open>name.strip()\<close> and
  \<^verbatim>\<open>company.strip()\<close>, never the argument itself, and refuse a name or company that
  strips to nothing. A row whose texts are stored that way is \<open>stored_stripped\<close>; a
  row with every property that the two functions establish is a \<open>ledger_row\<close>.
\<close>

definition stored_stripped :: "product \<Rightarrow> bool" where
  "stored_stripped p \<longleftrightarrow>
     strip (p_name p) = p_name p \<and> strip (p_company p) = p_company p"

definition ledger_row :: "product \<Rightarrow> bool" where
  "ledger_row p \<longleftrightarrow>
     stored_stripped p \<and> p_name p \<noteq> [] \<and> p_company p \<noteq> [] \<and> 0 \<le> p_cost_price p \<and>
     quantity_invariant p"

text \<open>
  What claim C2 asks of a call that addresses the product \<open>product_id\<close>, where \<open>res\<close>
  is the call's outcome and database: every row found in \<^verbatim>\<open>products\<close> afterwards was
  there before or satisfies the invariant; after a normal return the addressed product
  has a row and it satisfies the invariant; after an exception the table is unchanged.
\<close>

definition keeps_invariant :: "string \<Rightarrow> db \<Rightarrow> unit outcome \<Rightarrow> bool" where
  "keeps_invariant product_id d res \<longleftrightarrow>
     (\<forall>k p. products (snd res) k = Some p \<longrightarrow>
        products d k = Some p \<or> quantity_invariant p) \<and>
     (\<forall>u. fst res = Inr u \<longrightarrow>
        (\<exists>p. products (snd res) product_id = Some p \<and> quantity_invariant p)) \<and>
     (\<forall>e. fst res = Inl e \<longrightarrow> products (snd res) = products d)"

text \<open>
  The outstanding due of a customer in the specification's words: the sum of
  \<open>due_amount\<close> over the wholesale sales of the customer with a positive due, minus the
  sum of \<open>amount_received\<close> over the customer's payments, floored at 0. It is written
  from the specification, to be compared with \<open>get_customer_dues_by_name\<close>.
\<close>

definition outstanding_due_spec :: "string \<Rightarrow> db \<Rightarrow> real" where
  "outstanding_due_spec x d =
     max 0
       ((\<Sum>s\<leftarrow>sales d.
           if s_sale_type s = ''wholesale'' \<and> 0 < s_due_amount s \<and> s_customer_name s = Some x
           then s_due_amount s else 0) -
        (\<Sum>r\<leftarrow>dues_received d. if d_customer_name r = x then d_amount_received r else 0))"

section \<open>A sample shop\<close>

text \<open>
  The product of the specification's scenario: \<^verbatim>\<open>P1\<close> at cost 6, with a given total,
  warehouse and store quantity, alone in an otherwise empty database.
\<close>

definition tea :: "int \<Rightarrow> int \<Rightarrow> int \<Rightarrow> product" where
  "tea quantity warehouse_quantity store_quantity =
     \<lparr>p_id = ''P1'', p_name = ''Tea'', p_company = ''Acme'', p_cost_price = 6,
      p_quantity = quantity, p_warehouse_quantity = warehouse_quantity,
      p_store_quantity = store_quantity\<rparr>"

definition shop :: "int \<Rightarrow> int \<Rightarrow> int \<Rightarrow> db" where
  "shop quantity warehouse_quantity store_quantity =
     \<lparr>products = [''P1'' \<mapsto> tea quantity warehouse_quantity store_quantity],
      sales = [], dues_received = []\<rparr>"

text \<open>
  The database after the scenario's wholesale sale to Ali: 10 units at 10, 40 paid.
\<close>

definition ali_db :: db where
  "ali_db =
     (shop 10 5 5)\<lparr>sales := [sale_row ''wholesale'' ''P1'' ''Tea'' 10 6 10 40 (Some ''Ali'')]\<rparr>"

section \<open>The databases the ledger can produce\<close>

text \<open>
  A database is reachable when it comes from the empty one by calls of the functions
  that write to the three tables, whether a call returns or raises.
\<close>

inductive reachable :: "db \<Rightarrow> bool" where
  start: "reachable empty_db"
| by_add_product:
    "reachable d \<Longrightarrow>
     add_product product_id name company cost_price quantity warehouse_quantity
       store_quantity d = (r, d') \<Longrightarrow> reachable d'"
| by_update_product:
    "reachable d \<Longrightarrow>
     update_product product_id name company cost_price quantity' warehouse_quantity
       store_quantity d = (r, d') \<Longrightarrow> reachable d'"
| by_delete_product:
    "reachable d \<Longrightarrow> delete_product product_id d = (r, d') \<Longrightarrow> reachable d'"
| by_transfer_inventory:
    "reachable d \<Longrightarrow>
     transfer_inventory product_id from_location to_location quantity notes d = (r, d') \<Longrightarrow>
     reachable d'"
| by_add_sale:
    "reachable d \<Longrightarrow>
     add_sale sale_type product_id product_name selling_price cost_price quantity
       paid_amount customer_name d = (r, d') \<Longrightarrow> reachable d'"
| by_add_dues_payment:
    "reachable d \<Longrightarrow> add_dues_payment customer_name amount notes d = (r, d') \<Longrightarrow>
     reachable d'"

section \<open>Schema and migration\<close>

text \<open>
  \<^verbatim>\<open>init_database\<close> runs before any table can be relied on, also against a file that
  an earlier version of the program wrote. So it is modelled over a storage whose schema
  is data: a table is its column names (what \<^verbatim>\<open>PRAGMA table_info\<close> returns) and its
  rows, a row gives a value to each column name, and an index is its name. A step
  returns the storage it leaves or the \<^verbatim>\<open>sqlite3.OperationalError\<close> that ends the run;
  what a run that ends so has already committed is not modelled. The ledger functions
  above are modelled over the schema a completed run leaves, with one typed record per
  row.
\<close>

datatype val = IntV int | RealV real | TextV string | NullV

type_synonym row = "(string \<times> val) list"

record table =
  t_columns :: "string list"
  t_rows :: "row list"

record storage =
  tables :: "(string \<times> table) list"
  indexes :: "string list"

text \<open>The statements the migration uses.\<close>

definition find_table :: "string \<Rightarrow> storage \<Rightarrow> table option" where
  "find_table name st = map_of (tables st) name"

definition put_table :: "string \<Rightarrow> table \<Rightarrow> storage \<Rightarrow> storage" where
  "put_table name t st =
     st\<lparr>tables := map (\<lambda>(n, old). if n = name then (n, t) else (n, old)) (tables st)\<rparr>"

definition create_table_if_not_exists :: "string \<Rightarrow> string list \<Rightarrow> storage \<Rightarrow> error + storage" where
  "create_table_if_not_exists name columns st =
     (case find_table name st of
        Some _ \<Rightarrow> Inr st
      | None \<Rightarrow> Inr (st\<lparr>tables := tables st @ [(name, \<lparr>t_columns = columns, t_rows = []\<rparr>)]\<rparr>))"

definition table_info :: "string \<Rightarrow> storage \<Rightarrow> string list" where
  "table_info name st = (case find_table name st of None \<Rightarrow> [] | Some t \<Rightarrow> t_columns t)"

definition alter_table_add_column :: "string \<Rightarrow> string \<Rightarrow> val \<Rightarrow> storage \<Rightarrow> error + storage" where
  "alter_table_add_column name column default_value st =
     (case find_table name st of
        None \<Rightarrow> Inl (OperationalError ''no such table'')
      | Some t \<Rightarrow>
          if column \<in> set (t_columns t) then Inl (OperationalError ''duplicate column name'')
          else Inr (put_table name
                 \<lparr>t_columns = t_columns t @ [column],
                  t_rows = map (\<lambda>r. r @ [(column, default_value)]) (t_rows t)\<rparr> st))"

definition create_index_if_not_exists :: "string \<Rightarrow> string \<Rightarrow> string \<Rightarrow> storage \<Rightarrow> error + storage" where
  "create_index_if_not_exists index name column st =
     (if index \<in> set (indexes st) then Inr st
      else case find_table name st of
             None \<Rightarrow> Inl (OperationalError ''no such table'')
           | Some t \<Rightarrow>
               if column \<in> set (t_columns t) then Inr (st\<lparr>indexes := indexes st @ [index]\<rparr>)
               else Inl (OperationalError ''no such column''))"

text \<open>
  The functions of the source, in the order \<^verbatim>\<open>init_database\<close> calls them; a leading
  underscore of the Python name is dropped. Each runs to its \<^verbatim>\<open>commit\<close> or raises.
\<close>

fun run_steps :: "(storage \<Rightarrow> error + storage) list \<Rightarrow> storage \<Rightarrow> error + storage" where
  "run_steps [] st = Inr st"
| "run_steps (step # steps) st =
     (case step st of Inl e \<Rightarrow> Inl e | Inr st' \<Rightarrow> run_steps steps st')"

definition create_products_table :: "storage \<Rightarrow> error + storage" where
  "create_products_table =
     create_table_if_not_exists ''products''
       [''id'', ''name'', ''company'', ''cost_price'', ''quantity'', ''warehouse_quantity'',
        ''store_quantity'', ''created_at'']"

definition create_customers_table :: "storage \<Rightarrow> error + storage" where
  "create_customers_table =
     create_table_if_not_exists ''customers''
       [''id'', ''full_name'', ''whatsapp_number'', ''phone_number'', ''address'',
        ''created_at'']"

definition create_sales_table :: "storage \<Rightarrow> error + storage" where
  "create_sales_table =
     create_table_if_not_exists ''sales''
       [''id'', ''date'', ''sale_type'', ''customer_name'', ''product_id'', ''product_name'',
        ''selling_price'', ''cost_price'', ''quantity'', ''total'', ''profit'', ''paid_amount'',
        ''due_amount'']"

definition create_dues_received_table :: "storage \<Rightarrow> error + storage" where
  "create_dues_received_table =
     create_table_if_not_exists ''dues_received''
       [''id'', ''customer_name'', ''amount_received'', ''received_date'', ''notes'']"

definition create_expenses_table :: "storage \<Rightarrow> error + storage" where
  "create_expenses_table =
     create_table_if_not_exists ''expenses''
       [''id'', ''date'', ''category'', ''description'', ''amount'', ''notes'', ''created_at'']"

definition add_due_amount_to_sales_table :: "storage \<Rightarrow> error + storage" where
  "add_due_amount_to_sales_table st =
     (let columns = table_info ''sales'' st
      in if ''due_amount'' \<notin> set columns
         then alter_table_add_column ''sales'' ''due_amount'' (RealV 0) st
         else Inr st)"

text \<open>
  The \<^verbatim>\<open>WHERE\<close> clause of the backfill,
  \<^verbatim>\<open>warehouse_quantity = 0 AND store_quantity = 0 AND quantity > 0\<close>, and its \<^verbatim>\<open>SET\<close>
  clause, \<^verbatim>\<open>warehouse_quantity = quantity / 2, store_quantity = quantity / 2 +
  (quantity % 2)\<close>, evaluated on the old row. The three columns are \<^verbatim>\<open>INTEGER\<close> columns
  that the program only writes Python integers to; a cell that holds anything else is
  read as not matching. SQLite's \<^verbatim>\<open>/\<close> and \<^verbatim>\<open>%\<close> truncate, which on the positive
  quantities the clause selects is \<open>div\<close> and \<open>mod\<close>. Both statements fail when a column
  they name is missing.
\<close>

definition unsplit :: "row \<Rightarrow> bool" where
  "unsplit r \<longleftrightarrow>
     map_of r ''warehouse_quantity'' = Some (IntV 0) \<and>
     map_of r ''store_quantity'' = Some (IntV 0) \<and>
     (case map_of r ''quantity'' of Some (IntV q) \<Rightarrow> 0 < q | _ \<Rightarrow> False)"

definition set_cell :: "string \<Rightarrow> val \<Rightarrow> row \<Rightarrow> row" where
  "set_cell column v r = map (\<lambda>(c, old). if c = column then (c, v) else (c, old)) r"

definition split_row :: "row \<Rightarrow> row" where
  "split_row r =
     (case map_of r ''quantity'' of
        Some (IntV q) \<Rightarrow>
          set_cell ''store_quantity'' (IntV (q div 2 + q mod 2))
            (set_cell ''warehouse_quantity'' (IntV (q div 2)) r)
      | _ \<Rightarrow> r)"

definition count_unsplit :: "storage \<Rightarrow> error + nat" where
  "count_unsplit st =
     (case find_table ''products'' st of
        None \<Rightarrow> Inl (OperationalError ''no such table'')
      | Some t \<Rightarrow>
          if set [''warehouse_quantity'', ''store_quantity'', ''quantity''] \<subseteq> set (t_columns t)
          then Inr (length (filter unsplit (t_rows t)))
          else Inl (OperationalError ''no such column''))"

definition update_unsplit :: "storage \<Rightarrow> error + storage" where
  "update_unsplit st =
     (case find_table ''products'' st of
        None \<Rightarrow> Inl (OperationalError ''no such table'')
      | Some t \<Rightarrow>
          if set [''warehouse_quantity'', ''store_quantity'', ''quantity''] \<subseteq> set (t_columns t)
          then Inr (put_table ''products''
                 (t\<lparr>t_rows := map (\<lambda>r. if unsplit r then split_row r else r) (t_rows t)\<rparr>) st)
          else Inl (OperationalError ''no such column''))"

text \<open>
  \<^verbatim>\<open>_add_warehouse_store_columns\<close>. \<open>columns\<close> is read once, before the two
  \<^verbatim>\<open>ALTER TABLE\<close> statements, and the backfill is guarded by that list.
\<close>

definition add_warehouse_store_columns :: "storage \<Rightarrow> error + storage" where
  "add_warehouse_store_columns st =
     (let columns = table_info ''products'' st
      in case (if ''warehouse_quantity'' \<notin> set columns
               then alter_table_add_column ''products'' ''warehouse_quantity'' (IntV 0) st
               else Inr st) of
           Inl e \<Rightarrow> Inl e
         | Inr st1 \<Rightarrow>
             (case (if ''store_quantity'' \<notin> set columns
                    then alter_table_add_column ''products'' ''store_quantity'' (IntV 0) st1
                    else Inr st1) of
                Inl e \<Rightarrow> Inl e
              | Inr st2 \<Rightarrow>
                  if ''warehouse_quantity'' \<in> set columns \<or> ''store_quantity'' \<in> set columns
                  then (case count_unsplit st2 of
                          Inl e \<Rightarrow> Inl e
                        | Inr count \<Rightarrow> if 0 < count then update_unsplit st2 else Inr st2)
                  else Inr st2))"

definition create_indexes :: "storage \<Rightarrow> error + storage" where
  "create_indexes =
     run_steps
       [create_index_if_not_exists ''idx_products_name'' ''products'' ''name'',
        create_index_if_not_exists ''idx_products_company'' ''products'' ''company'',
        create_index_if_not_exists ''idx_sales_date'' ''sales'' ''date'',
        create_index_if_not_exists ''idx_sales_customer'' ''sales'' ''customer_name'',
        create_index_if_not_exists ''idx_sales_product_id'' ''sales'' ''product_id'',
        create_index_if_not_exists ''idx_customers_name'' ''customers'' ''full_name'',
        create_index_if_not_exists ''idx_customers_phone'' ''customers'' ''phone_number'',
        create_index_if_not_exists ''idx_dues_customer'' ''dues_received'' ''customer_name'',
        create_index_if_not_exists ''idx_dues_date'' ''dues_received'' ''received_date'',
        create_index_if_not_exists ''idx_expenses_date'' ''expenses'' ''date'',
        create_index_if_not_exists ''idx_expenses_category'' ''expenses'' ''category'']"

definition init_database :: "storage \<Rightarrow> error + storage" where
  "init_database =
     run_steps
       [create_products_table, create_customers_table, create_sales_table,
        create_dues_received_table, create_expenses_table, add_due_amount_to_sales_table,
        add_warehouse_store_columns, create_indexes]"

text \<open>
  What a completed run establishes: the five tables exist, \<^verbatim>\<open>sales\<close> has its
  \<^verbatim>\<open>due_amount\<close> column, \<^verbatim>\<open>products\<close> has the two location columns and no row that the
  backfill would still select, and the eleven indexes exist.
\<close>

definition index_names :: "string list" where
  "index_names =
     [''idx_products_name'', ''idx_products_company'', ''idx_sales_date'',
      ''idx_sales_customer'', ''idx_sales_product_id'', ''idx_customers_name'',
      ''idx_customers_phone'', ''idx_dues_customer'', ''idx_dues_date'',
      ''idx_expenses_date'', ''idx_expenses_category'']"

definition has_column :: "string \<Rightarrow> string \<Rightarrow> storage \<Rightarrow> bool" where
  "has_column name column st \<longleftrightarrow> column \<in> set (table_info name st)"

definition products_split :: "storage \<Rightarrow> bool" where
  "products_split st \<longleftrightarrow>
     (case find_table ''products'' st of
        None \<Rightarrow> False
      | Some t \<Rightarrow>
          set [''warehouse_quantity'', ''store_quantity'', ''quantity''] \<subseteq> set (t_columns t) \<and>
          filter unsplit (t_rows t) = [])"

definition settled :: "storage \<Rightarrow> bool" where
  "settled st \<longleftrightarrow>
     find_table ''customers'' st \<noteq> None \<and> find_table ''dues_received'' st \<noteq> None \<and>
     find_table ''expenses'' st \<noteq> None \<and> find_table ''sales'' st \<noteq> None \<and>
     has_column ''sales'' ''due_amount'' st \<and> products_split st \<and>
     set index_names \<subseteq> set (indexes st)"

section \<open>A database from before the warehouse and store columns\<close>

text \<open>
  A \<^verbatim>\<open>products\<close> table without the two location columns, holding one product with a
  quantity of 5, and no other table; and the storage a run leaves from it, given the
  rows of \<^verbatim>\<open>products\<close>.
\<close>

definition legacy_row :: row where
  "legacy_row =
     [(''id'', TextV ''P1''), (''name'', TextV ''Tea''), (''company'', TextV ''Acme''),
      (''cost_price'', RealV 6), (''quantity'', IntV 5), (''created_at'', TextV ''2024-01-01'')]"

definition legacy_db :: storage where
  "legacy_db =
     \<lparr>tables =
        [(''products'',
          \<lparr>t_columns = [''id'', ''name'', ''company'', ''cost_price'', ''quantity'',
                        ''created_at''],
           t_rows = [legacy_row]\<rparr>)],
      indexes = []\<rparr>"

definition migrated :: "row list \<Rightarrow> storage" where
  "migrated rows =
     \<lparr>tables =
        [(''products'',
          \<lparr>t_columns = [''id'', ''name'', ''company'', ''cost_price'', ''quantity'',
                        ''created_at'', ''warehouse_quantity'', ''store_quantity''],
           t_rows = rows\<rparr>),
         (''customers'',
          \<lparr>t_columns = [''id'', ''full_name'', ''whatsapp_number'', ''phone_number'',
                        ''address'', ''created_at''],
           t_rows = []\<rparr>),
         (''sales'',
          \<lparr>t_columns = [''id'', ''date'', ''sale_type'', ''customer_name'', ''product_id'',
                        ''product_name'', ''selling_price'', ''cost_price'', ''quantity'',
                        ''total'', ''profit'', ''paid_amount'', ''due_amount''],
           t_rows = []\<rparr>),
         (''dues_received'',
          \<lparr>t_columns = [''id'', ''customer_name'', ''amount_received'', ''received_date'',
                        ''notes''],
           t_rows = []\<rparr>),
         (''expenses'',
          \<lparr>t_columns = [''id'', ''date'', ''category'', ''description'', ''amount'',
                        ''notes'', ''created_at''],
           t_rows = []\<rparr>)],
      indexes =
        [''idx_products_name'', ''idx_products_company'', ''idx_sales_date'',
         ''idx_sales_customer'', ''idx_sales_product_id'', ''idx_customers_name'',
         ''idx_customers_phone'', ''idx_dues_customer'', ''idx_dues_date'',
         ''idx_expenses_date'', ''idx_expenses_category'']\<rparr>"

definition legacy_row_split :: "int \<Rightarrow> int \<Rightarrow> row" where
  "legacy_row_split warehouse_quantity store_quantity =
     legacy_row @ [(''warehouse_quantity'', IntV warehouse_quantity),
                   (''store_quantity'', IntV store_quantity)]"


section \<open>Stripping\<close>

lemma dropWhile_rev_keeps_head:
  assumes "\<not> P a"
  shows "\<exists>u. rev (dropWhile P (rev (a # t))) = a # u"
proof (cases "\<forall>x\<in>set (rev t). P x")
  case True
  then have "dropWhile P (rev t @ [a]) = dropWhile P [a]"
    by (intro dropWhile_append2) simp
  then show ?thesis using assms by simp
next
  case False
  then obtain x where "x \<in> set (rev t)" "\<not> P x" by blast
  then have "dropWhile P (rev t @ [a]) = dropWhile P (rev t) @ [a]"
    by (rule dropWhile_append1)
  then show ?thesis by simp
qed

lemma dropWhile_rev_dropWhile:
  "dropWhile P (rev (dropWhile P (rev (dropWhile P s)))) =
     rev (dropWhile P (rev (dropWhile P s)))"
proof (cases "dropWhile P s")
  case Nil
  show ?thesis unfolding Nil by simp
next
  case (Cons a t)
  then have na: "\<not> P a"
    by (metis hd_dropWhile list.sel(1) list.distinct(1))
  from dropWhile_rev_keeps_head [of P a t] na obtain u
    where "rev (dropWhile P (rev (a # t))) = a # u" by blast
  then show ?thesis unfolding Cons using na by simp
qed

lemma strip_idem: "strip (strip s) = strip s"
  unfolding strip_def
  by (simp add: dropWhile_rev_dropWhile)

lemma strip_sample:
  "strip ''Tea'' = ''Tea''" "strip ''Acme'' = ''Acme''" "strip ''P1'' = ''P1''"
  "strip ''Ali'' = ''Ali''" "strip [] = []"
  by (simp_all add: strip_def is_space_def)

lemmas run_defs = add_sale_def insert_sale_def sales_check_def get_product_by_id_def
  update_product_def sql_update_product_def products_check_def Let_def
  transfer_inventory_def add_product_def insert_product_def sale_row_def
  add_dues_payment_def insert_dues_received_def

lemmas migration_defs = init_database_def create_products_table_def
  create_customers_table_def create_sales_table_def create_dues_received_table_def
  create_expenses_table_def add_due_amount_to_sales_table_def
  add_warehouse_store_columns_def create_indexes_def create_table_if_not_exists_def
  table_info_def alter_table_add_column_def create_index_if_not_exists_def find_table_def
  put_table_def count_unsplit_def update_unsplit_def unsplit_def split_row_def set_cell_def
  Let_def

section \<open>What the product functions write\<close>

lemma update_product_Inl:
  "update_product product_id name company cost_price quantity warehouse_quantity
     store_quantity d = (Inl e, d') \<Longrightarrow> d' = d"
  by (auto simp: update_product_def get_product_by_id_def sql_update_product_def Let_def
      split: if_splits option.splits)

lemma update_product_Inr:
  assumes "update_product product_id name company cost_price quantity warehouse_quantity
     store_quantity d = (Inr u, d')"
  shows "\<exists>current. products d product_id = Some current \<and>
     d' = d\<lparr>products := (products d)(product_id \<mapsto>
            current\<lparr>p_name := strip name, p_company := strip company,
                    p_cost_price := cost_price,
                    p_quantity := (case quantity of None \<Rightarrow> p_quantity current | Some q \<Rightarrow> q),
                    p_warehouse_quantity :=
                      (case warehouse_quantity of
                         None \<Rightarrow> p_warehouse_quantity current | Some w \<Rightarrow> w),
                    p_store_quantity :=
                      (case store_quantity of
                         None \<Rightarrow> p_store_quantity current | Some s \<Rightarrow> s)\<rparr>)\<rparr> \<and>
     0 \<le> cost_price \<and> strip name \<noteq> [] \<and> strip company \<noteq> [] \<and>
     split_ok (case quantity of None \<Rightarrow> p_quantity current | Some q \<Rightarrow> q)
       (case warehouse_quantity of None \<Rightarrow> p_warehouse_quantity current | Some w \<Rightarrow> w)
       (case store_quantity of None \<Rightarrow> p_store_quantity current | Some s \<Rightarrow> s)"
proof -
  from assms obtain current where c: "products d product_id = Some current"
    by (auto simp: update_product_def get_product_by_id_def split: if_splits option.splits)
  show ?thesis
    using assms c
    by (simp add: update_product_def get_product_by_id_def sql_update_product_def Let_def
        split_ok_def products_check_def split: if_splits)
qed


lemma add_product_Inl:
  "add_product product_id name company cost_price quantity warehouse_quantity
     store_quantity d = (Inl e, d') \<Longrightarrow> d' = d"
  by (auto simp: add_product_def insert_product_def Let_def split: if_splits)

lemma add_product_Inr:
  assumes "add_product product_id name company cost_price quantity warehouse_quantity
     store_quantity d = (Inr u, d')"
  shows "products d (strip product_id) = None \<and>
     d' = d\<lparr>products := (products d)(strip product_id \<mapsto>
            \<lparr>p_id = strip product_id, p_name = strip name, p_company = strip company,
             p_cost_price = cost_price, p_quantity = quantity,
             p_warehouse_quantity =
               (case warehouse_quantity of None \<Rightarrow> quantity | Some w \<Rightarrow> w),
             p_store_quantity = (case store_quantity of None \<Rightarrow> 0 | Some s \<Rightarrow> s)\<rparr>)\<rparr> \<and>
     strip product_id \<noteq> [] \<and> 0 \<le> cost_price \<and> strip name \<noteq> [] \<and> strip company \<noteq> [] \<and>
     split_ok quantity (case warehouse_quantity of None \<Rightarrow> quantity | Some w \<Rightarrow> w)
       (case store_quantity of None \<Rightarrow> 0 | Some s \<Rightarrow> s)"
  using assms
  by (simp add: add_product_def insert_product_def Let_def split_ok_def
      split: if_splits)

section \<open>What a sale and a transfer write\<close>

lemma add_sale_overpaid:
  "selling_price * of_int quantity < paid_amount \<Longrightarrow>
   add_sale sale_type product_id product_name selling_price cost_price quantity
     paid_amount customer_name d =
   (Inl (ValueError ''Paid amount cannot exceed total amount''), d)"
  by (simp add: add_sale_def Let_def)

lemma add_sale_after_insert:
  assumes "\<not> selling_price * of_int quantity < paid_amount"
    and "sales_check (sale_row sale_type product_id product_name selling_price cost_price
           quantity paid_amount customer_name)"
  shows "add_sale sale_type product_id product_name selling_price cost_price quantity
     paid_amount customer_name d =
    (let d1 = d\<lparr>sales := sales d @ [sale_row sale_type product_id product_name
                  selling_price cost_price quantity paid_amount customer_name]\<rparr>
     in case products d product_id of
          None \<Rightarrow> (Inl (ValueError ''Product not found''), d1)
        | Some prod_row \<Rightarrow>
            if p_store_quantity prod_row < quantity then
              (Inl (ValueError ''Not enough stock in store''), d1)
            else update_product product_id (p_name prod_row) (p_company prod_row)
                   (p_cost_price prod_row) (Some (p_quantity prod_row - quantity))
                   (Some (p_warehouse_quantity prod_row))
                   (Some (p_store_quantity prod_row - quantity)) d1)"
  using assms
  by (simp add: add_sale_def Let_def insert_sale_def sale_row_def get_product_by_id_def
      split: option.splits)

lemma add_sale_check_fails:
  assumes "\<not> selling_price * of_int quantity < paid_amount"
    and "\<not> sales_check (sale_row sale_type product_id product_name selling_price cost_price
           quantity paid_amount customer_name)"
  shows "add_sale sale_type product_id product_name selling_price cost_price quantity
     paid_amount customer_name d = (Inl (IntegrityError ''CHECK constraint failed''), d)"
  using assms
  by (simp add: add_sale_def Let_def insert_sale_def sale_row_def)

lemma add_sale_Inr:
  assumes "add_sale sale_type product_id product_name selling_price cost_price quantity
     paid_amount customer_name d = (Inr u, d')"
  shows "\<exists>prod_row. products d product_id = Some prod_row \<and>
     quantity \<le> p_store_quantity prod_row \<and>
     paid_amount \<le> selling_price * of_int quantity \<and>
     sales_check (sale_row sale_type product_id product_name selling_price cost_price
        quantity paid_amount customer_name) \<and>
     split_ok (p_quantity prod_row - quantity) (p_warehouse_quantity prod_row)
        (p_store_quantity prod_row - quantity) \<and>
     d' = d\<lparr>sales := sales d @ [sale_row sale_type product_id product_name selling_price
                cost_price quantity paid_amount customer_name],
            products := (products d)(product_id \<mapsto>
              prod_row\<lparr>p_name := strip (p_name prod_row),
                       p_company := strip (p_company prod_row),
                       p_cost_price := p_cost_price prod_row,
                       p_quantity := p_quantity prod_row - quantity,
                       p_warehouse_quantity := p_warehouse_quantity prod_row,
                       p_store_quantity := p_store_quantity prod_row - quantity\<rparr>)\<rparr>"
proof -
  have paid: "\<not> selling_price * of_int quantity < paid_amount"
    using assms add_sale_overpaid [of selling_price quantity paid_amount] by fastforce
  have chk: "sales_check (sale_row sale_type product_id product_name selling_price cost_price
        quantity paid_amount customer_name)"
    using assms add_sale_check_fails [OF paid] by fastforce
  let ?d1 = "d\<lparr>sales := sales d @ [sale_row sale_type product_id product_name
                  selling_price cost_price quantity paid_amount customer_name]\<rparr>"
  from assms obtain prod_row where p: "products d product_id = Some prod_row"
    unfolding add_sale_after_insert [OF paid chk] by (auto simp: Let_def split: option.splits)
  have enough: "\<not> p_store_quantity prod_row < quantity"
    using assms p unfolding add_sale_after_insert [OF paid chk]
    by (auto simp: Let_def split: if_splits)
  have upd: "update_product product_id (p_name prod_row) (p_company prod_row)
                   (p_cost_price prod_row) (Some (p_quantity prod_row - quantity))
                   (Some (p_warehouse_quantity prod_row))
                   (Some (p_store_quantity prod_row - quantity)) ?d1 = (Inr u, d')"
    using assms p enough unfolding add_sale_after_insert [OF paid chk]
    by (simp add: Let_def)
  from update_product_Inr [OF upd] p paid chk enough show ?thesis
    by (auto simp: not_less)
qed

lemma add_sale_Inl:
  assumes "add_sale sale_type product_id product_name selling_price cost_price quantity
     paid_amount customer_name d = (Inl e, d')"
  shows "d' = d \<or> d' = d\<lparr>sales := sales d @ [sale_row sale_type product_id product_name
                  selling_price cost_price quantity paid_amount customer_name]\<rparr>"
proof (cases "selling_price * of_int quantity < paid_amount")
  case True
  then show ?thesis using assms add_sale_overpaid [OF True] by simp
next
  case paid: False
  show ?thesis
  proof (cases "sales_check (sale_row sale_type product_id product_name selling_price
        cost_price quantity paid_amount customer_name)")
    case False
    then show ?thesis using assms add_sale_check_fails [OF paid False] by simp
  next
    case True
    show ?thesis
      using assms unfolding add_sale_after_insert [OF paid True]
      by (auto simp: Let_def split: option.splits if_splits dest: update_product_Inl)
  qed
qed

lemma transfer_inventory_Inl:
  "transfer_inventory product_id from_location to_location quantity notes d = (Inl e, d')
   \<Longrightarrow> d' = d"
  by (auto simp: transfer_inventory_def get_product_by_id_def Let_def
      split: if_splits option.splits dest: update_product_Inl)

lemma transfer_inventory_Inr:
  assumes "transfer_inventory product_id from_location to_location quantity notes d =
     (Inr u, d')"
  shows "\<exists>prod_row. products d product_id = Some prod_row \<and> 0 < quantity \<and>
     ((from_location = ''warehouse'' \<and> to_location = ''store'') \<or>
      (from_location = ''store'' \<and> to_location = ''warehouse'')) \<and>
     update_product product_id (p_name prod_row) (p_company prod_row) (p_cost_price prod_row)
       (Some (p_quantity prod_row))
       (Some (if from_location = ''warehouse'' then p_warehouse_quantity prod_row - quantity
              else p_warehouse_quantity prod_row + quantity))
       (Some (if from_location = ''warehouse'' then p_store_quantity prod_row + quantity
              else p_store_quantity prod_row - quantity)) d = (Inr u, d')"
  using assms
  by (auto simp: transfer_inventory_def get_product_by_id_def Let_def
      split: if_splits option.splits)

lemma update_product_other_tables:
  "update_product product_id name company cost_price quantity warehouse_quantity
     store_quantity (d\<lparr>sales := xs\<rparr>) =
   (fst (update_product product_id name company cost_price quantity warehouse_quantity
           store_quantity d),
    (snd (update_product product_id name company cost_price quantity warehouse_quantity
           store_quantity d))\<lparr>sales := xs\<rparr>)"
  by (simp add: update_product_def get_product_by_id_def sql_update_product_def Let_def
      split: option.splits)

lemma add_sale_outcome_ignores_customer:
  "fst (add_sale sale_type product_id product_name selling_price cost_price quantity
          paid_amount customer_name d) =
   fst (add_sale sale_type product_id product_name selling_price cost_price quantity
          paid_amount customer_name' d) \<and>
   products (snd (add_sale sale_type product_id product_name selling_price cost_price
          quantity paid_amount customer_name d)) =
   products (snd (add_sale sale_type product_id product_name selling_price cost_price
          quantity paid_amount customer_name' d))"
proof (cases "selling_price * of_int quantity < paid_amount")
  case True
  then show ?thesis by (simp add: add_sale_overpaid)
next
  case paid: False
  have chk: "sales_check (sale_row sale_type product_id product_name selling_price
        cost_price quantity paid_amount customer_name) =
      sales_check (sale_row sale_type product_id product_name selling_price
        cost_price quantity paid_amount customer_name')"
    by (simp add: sales_check_def sale_row_def)
  show ?thesis
  proof (cases "sales_check (sale_row sale_type product_id product_name selling_price
        cost_price quantity paid_amount customer_name)")
    case False
    with chk paid show ?thesis by (simp add: add_sale_check_fails)
  next
    case True
    with chk have True': "sales_check (sale_row sale_type product_id product_name
        selling_price cost_price quantity paid_amount customer_name')" by simp
    show ?thesis
      unfolding add_sale_after_insert [OF paid True] add_sale_after_insert [OF paid True']
      by (simp add: Let_def update_product_other_tables split: option.splits)
  qed
qed

section \<open>Rows of a reachable database\<close>

text \<open>
  Whatever a call does to the \<^verbatim>\<open>products\<close> table, a row found there afterwards was
  there before or is a \<open>ledger_row\<close>; so every row of a reachable database is one.
\<close>

lemma update_product_rows:
  assumes "update_product product_id name company cost_price quantity warehouse_quantity
     store_quantity d = (r, d')"
    and "products d' k = Some p"
  shows "products d k = Some p \<or> ledger_row p"
proof (cases r)
  case (Inl e)
  with assms update_product_Inl [of product_id name company cost_price quantity
      warehouse_quantity store_quantity d e d'] show ?thesis by simp
next
  case (Inr u)
  with assms(1) have ok: "update_product product_id name company cost_price quantity
      warehouse_quantity store_quantity d = (Inr u, d')" by simp
  from update_product_Inr [OF ok] assms(2) show ?thesis
    by (auto simp: ledger_row_def stored_stripped_def quantity_invariant_def strip_idem
        split: if_splits)
qed

lemma add_product_rows:
  assumes "add_product product_id name company cost_price quantity warehouse_quantity
     store_quantity d = (r, d')"
    and "products d' k = Some p"
  shows "products d k = Some p \<or> ledger_row p"
proof (cases r)
  case (Inl e)
  with assms add_product_Inl [of product_id name company cost_price quantity
      warehouse_quantity store_quantity d e d'] show ?thesis by simp
next
  case (Inr u)
  with assms(1) have ok: "add_product product_id name company cost_price quantity
      warehouse_quantity store_quantity d = (Inr u, d')" by simp
  from add_product_Inr [OF ok] assms(2) show ?thesis
    by (auto simp: ledger_row_def stored_stripped_def quantity_invariant_def strip_idem
        split: if_splits)
qed

lemma transfer_inventory_rows:
  assumes "transfer_inventory product_id from_location to_location quantity notes d = (r, d')"
    and "products d' k = Some p"
  shows "products d k = Some p \<or> ledger_row p"
proof (cases r)
  case (Inl e)
  with assms transfer_inventory_Inl [of product_id from_location to_location quantity
      "notes" d e d'] show ?thesis by simp
next
  case (Inr u)
  with assms(1) have ok: "transfer_inventory product_id from_location to_location quantity
      notes d = (Inr u, d')" by simp
  from transfer_inventory_Inr [OF ok] obtain prod_row :: product where
    "update_product product_id (p_name prod_row) (p_company prod_row) (p_cost_price prod_row)
       (Some (p_quantity prod_row))
       (Some (if from_location = ''warehouse'' then p_warehouse_quantity prod_row - quantity
              else p_warehouse_quantity prod_row + quantity))
       (Some (if from_location = ''warehouse'' then p_store_quantity prod_row + quantity
              else p_store_quantity prod_row - quantity)) d = (Inr u, d')"
    by blast
  from update_product_rows [OF this assms(2)] show ?thesis .
qed

lemma add_sale_rows:
  assumes "add_sale sale_type product_id product_name selling_price cost_price quantity
       paid_amount customer_name d = (r, d')"
    and "products d' k = Some p"
  shows "products d k = Some p \<or> ledger_row p"
proof (cases "selling_price * of_int quantity < paid_amount")
  case True
  then show ?thesis using assms add_sale_overpaid [OF True] by simp
next
  case paid: False
  show ?thesis
  proof (cases "sales_check (sale_row sale_type product_id product_name selling_price
        cost_price quantity paid_amount customer_name)")
    case False
    then show ?thesis using assms add_sale_check_fails [OF paid False] by simp
  next
    case True
    let ?d1 = "d\<lparr>sales := sales d @ [sale_row sale_type product_id product_name
                  selling_price cost_price quantity paid_amount customer_name]\<rparr>"
    have same: "products ?d1 = products d" by simp
    show ?thesis
    proof (cases "products d product_id")
      case None
      then show ?thesis
        using assms unfolding add_sale_after_insert [OF paid True] by (auto simp: Let_def)
    next
      case (Some prod_row)
      show ?thesis
      proof (cases "p_store_quantity prod_row < quantity")
        case True
        then show ?thesis
          using assms Some unfolding add_sale_after_insert [OF paid \<open>sales_check _\<close>]
          by (auto simp: Let_def)
      next
        case False
        then have "update_product product_id (p_name prod_row) (p_company prod_row)
                   (p_cost_price prod_row) (Some (p_quantity prod_row - quantity))
                   (Some (p_warehouse_quantity prod_row))
                   (Some (p_store_quantity prod_row - quantity)) ?d1 = (r, d')"
          using assms(1) Some unfolding add_sale_after_insert [OF paid \<open>sales_check _\<close>]
          by (simp add: Let_def)
        from update_product_rows [OF this assms(2)] same show ?thesis by simp
      qed
    qed
  qed
qed

lemma delete_product_rows:
  assumes "delete_product product_id d = (r, d')" and "products d' k = Some p"
  shows "products d k = Some p"
  using assms by (auto simp: delete_product_def split: option.splits if_splits)

lemma add_dues_payment_rows:
  assumes "add_dues_payment customer_name amount notes d = (r, d')"
  shows "products d' = products d"
  using assms
  by (auto simp: add_dues_payment_def insert_dues_received_def split: if_splits)

lemma reachable_rows:
  assumes "reachable d" and "products d k = Some p"
  shows "ledger_row p"
  using assms
proof (induction arbitrary: k p rule: reachable.induct)
  case start
  then show ?case by (simp add: empty_db_def)
next
  case (by_add_product d product_id name company cost_price quantity warehouse_quantity
      store_quantity r d')
  from add_product_rows [OF by_add_product.hyps(2) by_add_product.prems]
    by_add_product.IH show ?case by blast
next
  case (by_update_product d product_id name company cost_price quantity' warehouse_quantity
      store_quantity r d')
  from update_product_rows [OF by_update_product.hyps(2) by_update_product.prems]
    by_update_product.IH show ?case by blast
next
  case (by_delete_product d product_id r d')
  from delete_product_rows [OF by_delete_product.hyps(2) by_delete_product.prems]
    by_delete_product.IH show ?case by blast
next
  case (by_transfer_inventory d product_id from_location to_location quantity note_text r d')
  from transfer_inventory_rows [OF by_transfer_inventory.hyps(2) by_transfer_inventory.prems]
    by_transfer_inventory.IH show ?case by blast
next
  case (by_add_sale d sale_type product_id product_name selling_price cost_price quantity
      paid_amount customer_name r d')
  from add_sale_rows [OF by_add_sale.hyps(2) by_add_sale.prems]
    by_add_sale.IH show ?case by blast
next
  case (by_add_dues_payment d customer_name amount note_text r d')
  from add_dues_payment_rows [OF by_add_dues_payment.hyps(2)] by_add_dues_payment.prems
    by_add_dues_payment.IH show ?case by simp
qed

section \<open>The quantity invariant under the four writers\<close>

lemma ledger_row_invariant: "ledger_row p \<Longrightarrow> quantity_invariant p"
  by (simp add: ledger_row_def)

lemma keeps_invariant_add_product:
  "keeps_invariant (strip product_id) d
     (add_product product_id name company cost_price quantity warehouse_quantity
        store_quantity d)"
proof -
  obtain r d' where res: "add_product product_id name company cost_price quantity
      warehouse_quantity store_quantity d = (r, d')"
    by (cases "add_product product_id name company cost_price quantity
      warehouse_quantity store_quantity d") blast
  have rows: "\<And>k p. products d' k = Some p \<Longrightarrow>
      products d k = Some p \<or> quantity_invariant p"
    using add_product_rows [OF res] ledger_row_invariant by blast
  have ok: "\<And>u. r = Inr u \<Longrightarrow>
      \<exists>p. products d' (strip product_id) = Some p \<and> quantity_invariant p"
  proof -
    fix u assume "r = Inr u"
    with res have "add_product product_id name company cost_price quantity
      warehouse_quantity store_quantity d = (Inr u, d')" by simp
    from add_product_Inr [OF this]
    show "\<exists>p. products d' (strip product_id) = Some p \<and> quantity_invariant p"
      by (auto simp: quantity_invariant_def)
  qed
  have bad: "\<And>e. r = Inl e \<Longrightarrow> products d' = products d"
    using res add_product_Inl by blast
  show ?thesis
    unfolding keeps_invariant_def res using rows ok bad by simp
qed

lemma keeps_invariant_update_product:
  "keeps_invariant product_id d
     (update_product product_id name company cost_price quantity warehouse_quantity
        store_quantity d)"
proof -
  obtain r d' where res: "update_product product_id name company cost_price quantity
      warehouse_quantity store_quantity d = (r, d')"
    by (cases "update_product product_id name company cost_price quantity
      warehouse_quantity store_quantity d") blast
  have rows: "\<And>k p. products d' k = Some p \<Longrightarrow>
      products d k = Some p \<or> quantity_invariant p"
    using update_product_rows [OF res] ledger_row_invariant by blast
  have ok: "\<And>u. r = Inr u \<Longrightarrow>
      \<exists>p. products d' product_id = Some p \<and> quantity_invariant p"
  proof -
    fix u assume "r = Inr u"
    with res have "update_product product_id name company cost_price quantity
      warehouse_quantity store_quantity d = (Inr u, d')" by simp
    from update_product_Inr [OF this]
    show "\<exists>p. products d' product_id = Some p \<and> quantity_invariant p"
      by (auto simp: quantity_invariant_def)
  qed
  have bad: "\<And>e. r = Inl e \<Longrightarrow> products d' = products d"
    using res update_product_Inl by blast
  show ?thesis
    unfolding keeps_invariant_def res using rows ok bad by simp
qed

lemma keeps_invariant_transfer_inventory:
  "keeps_invariant product_id d
     (transfer_inventory product_id from_location to_location quantity note_text d)"
proof -
  obtain r d' where res: "transfer_inventory product_id from_location to_location quantity
      note_text d = (r, d')"
    by (cases "transfer_inventory product_id from_location to_location quantity
      note_text d") blast
  have rows: "\<And>k p. products d' k = Some p \<Longrightarrow>
      products d k = Some p \<or> quantity_invariant p"
    using transfer_inventory_rows [OF res] ledger_row_invariant by blast
  have ok: "\<And>u. r = Inr u \<Longrightarrow>
      \<exists>p. products d' product_id = Some p \<and> quantity_invariant p"
  proof -
    fix u assume "r = Inr u"
    with res have "transfer_inventory product_id from_location to_location quantity
      note_text d = (Inr u, d')" by simp
    from transfer_inventory_Inr [OF this] obtain prod_row :: product where
      "update_product product_id (p_name prod_row) (p_company prod_row)
         (p_cost_price prod_row) (Some (p_quantity prod_row))
         (Some (if from_location = ''warehouse''
                then p_warehouse_quantity prod_row - quantity
                else p_warehouse_quantity prod_row + quantity))
         (Some (if from_location = ''warehouse''
                then p_store_quantity prod_row + quantity
                else p_store_quantity prod_row - quantity)) d = (Inr u, d')"
      by blast
    from update_product_Inr [OF this]
    show "\<exists>p. products d' product_id = Some p \<and> quantity_invariant p"
      by (auto simp: quantity_invariant_def)
  qed
  have bad: "\<And>e. r = Inl e \<Longrightarrow> products d' = products d"
    using res transfer_inventory_Inl by blast
  show ?thesis
    unfolding keeps_invariant_def res using rows ok bad by simp
qed

lemma keeps_invariant_add_sale:
  "keeps_invariant product_id d
     (add_sale sale_type product_id product_name selling_price cost_price quantity
        paid_amount customer_name d)"
proof -
  obtain r d' where res: "add_sale sale_type product_id product_name selling_price
      cost_price quantity paid_amount customer_name d = (r, d')"
    by (cases "add_sale sale_type product_id product_name selling_price
      cost_price quantity paid_amount customer_name d") blast
  have rows: "\<And>k p. products d' k = Some p \<Longrightarrow>
      products d k = Some p \<or> quantity_invariant p"
    using add_sale_rows [OF res] ledger_row_invariant by blast
  have ok: "\<And>u. r = Inr u \<Longrightarrow>
      \<exists>p. products d' product_id = Some p \<and> quantity_invariant p"
  proof -
    fix u assume "r = Inr u"
    with res have "add_sale sale_type product_id product_name selling_price
      cost_price quantity paid_amount customer_name d = (Inr u, d')" by simp
    from add_sale_Inr [OF this]
    show "\<exists>p. products d' product_id = Some p \<and> quantity_invariant p"
      by (auto simp: quantity_invariant_def)
  qed
  have bad: "\<And>e. r = Inl e \<Longrightarrow> products d' = products d"
  proof -
    fix e assume "r = Inl e"
    with res have "add_sale sale_type product_id product_name selling_price
      cost_price quantity paid_amount customer_name d = (Inl e, d')" by simp
    from add_sale_Inl [OF this] show "products d' = products d" by auto
  qed
  show ?thesis
    unfolding keeps_invariant_def res using rows ok bad by simp
qed

lemma add_product_rejects:
  assumes "\<not> split_ok quantity
       (case warehouse_quantity of None \<Rightarrow> quantity | Some w \<Rightarrow> w)
       (case store_quantity of None \<Rightarrow> 0 | Some s \<Rightarrow> s)"
  shows "\<exists>e. add_product product_id name company cost_price quantity warehouse_quantity
       store_quantity d = (Inl e, d)"
proof -
  obtain r d' where res: "add_product product_id name company cost_price quantity
      warehouse_quantity store_quantity d = (r, d')"
    by (cases "add_product product_id name company cost_price quantity
      warehouse_quantity store_quantity d") blast
  show ?thesis
  proof (cases r)
    case (Inl e)
    with res add_product_Inl [of product_id name company cost_price quantity
        warehouse_quantity store_quantity d e d']
    show ?thesis by auto
  next
    case (Inr u)
    with res add_product_Inr [of product_id name company cost_price quantity
        warehouse_quantity store_quantity d u d'] assms
    show ?thesis by auto
  qed
qed

lemma update_product_rejects:
  assumes "products d product_id = Some stored"
    and "\<not> split_ok (case quantity of None \<Rightarrow> p_quantity stored | Some q \<Rightarrow> q)
          (case warehouse_quantity of None \<Rightarrow> p_warehouse_quantity stored | Some w \<Rightarrow> w)
          (case store_quantity of None \<Rightarrow> p_store_quantity stored | Some s \<Rightarrow> s)"
  shows "\<exists>e. update_product product_id name company cost_price quantity warehouse_quantity
         store_quantity d = (Inl e, d)"
proof -
  obtain r d1 where res: "update_product product_id name company cost_price quantity
      warehouse_quantity store_quantity d = (r, d1)"
    by (cases "update_product product_id name company cost_price quantity
      warehouse_quantity store_quantity d") blast
  show ?thesis
  proof (cases r)
    case (Inl e)
    with res update_product_Inl [of product_id name company cost_price quantity
        warehouse_quantity store_quantity d e d1]
    show ?thesis by auto
  next
    case (Inr v)
    with res update_product_Inr [of product_id name company cost_price quantity
        warehouse_quantity store_quantity d v d1] assms
    show ?thesis by auto
  qed
qed

section \<open>Dues\<close>

lemma coalesce_sum_eq: "coalesce_sum xs = sum_list xs"
  by (cases xs) (simp_all add: coalesce_sum_def)

lemma sum_list_filter_if:
  "sum_list (map f (filter P xs)) = (\<Sum>x\<leftarrow>xs. if P x then f x else (0 :: real))"
  by (induction xs) simp_all

lemma dues_by_name_eq_spec:
  "get_customer_dues_by_name x d = outstanding_due_spec x d"
proof -
  have "(\<Sum>s\<leftarrow>sales d.
           if s_sale_type s = ''wholesale'' \<and> s_customer_name s = Some x \<and> 0 < s_due_amount s
           then s_due_amount s else 0) =
        (\<Sum>s\<leftarrow>sales d.
           if s_sale_type s = ''wholesale'' \<and> 0 < s_due_amount s \<and> s_customer_name s = Some x
           then s_due_amount s else 0)"
    by (intro arg_cong [where f = sum_list] map_cong) auto
  then show ?thesis
    by (simp add: get_customer_dues_by_name_def outstanding_due_spec_def coalesce_sum_eq
        sum_list_filter_if Let_def)
qed

lemma add_dues_payment_Inl:
  "add_dues_payment customer_name amount note_text d = (Inl e, d') \<Longrightarrow> d' = d"
  by (auto simp: add_dues_payment_def insert_dues_received_def split: if_splits)

lemma add_dues_payment_Inr:
  "add_dues_payment customer_name amount note_text d = (Inr u, d') \<Longrightarrow>
   0 < amount \<and> strip customer_name \<noteq> [] \<and>
   d' = d\<lparr>dues_received := dues_received d @
          [\<lparr>d_customer_name = strip customer_name, d_amount_received = amount,
            d_notes = strip note_text\<rparr>]\<rparr>"
  by (auto simp: add_dues_payment_def insert_dues_received_def split: if_splits)

lemma dues_after_payment:
  assumes "add_dues_payment customer_name amount note_text d = (r, d')"
  shows "get_customer_dues_by_name x d' \<le> get_customer_dues_by_name x d"
proof (cases r)
  case (Inl e)
  with assms add_dues_payment_Inl [of customer_name amount note_text d e d']
  show ?thesis by simp
next
  case (Inr u)
  with assms add_dues_payment_Inr [of customer_name amount note_text d u d']
  have pos: "0 < amount" and d': "d' = d\<lparr>dues_received := dues_received d @
          [\<lparr>d_customer_name = strip customer_name, d_amount_received = amount,
            d_notes = strip note_text\<rparr>]\<rparr>"
    by simp_all
  show ?thesis
    using pos unfolding dues_by_name_eq_spec outstanding_due_spec_def d'
    by (auto simp: le_max_iff_disj)
qed

lemma dues_after_retail_sale:
  assumes "add_sale ''retail'' product_id product_name selling_price cost_price quantity
      paid_amount customer_name d = (r, d')"
  shows "get_customer_dues_by_name x d' = get_customer_dues_by_name x d"
proof (cases r)
  case (Inl e)
  with assms have "add_sale ''retail'' product_id product_name selling_price cost_price
      quantity paid_amount customer_name d = (Inl e, d')" by simp
  from add_sale_Inl [OF this] show ?thesis
    unfolding dues_by_name_eq_spec outstanding_due_spec_def
    by (auto simp: sale_row_def)
next
  case (Inr u)
  with assms have "add_sale ''retail'' product_id product_name selling_price cost_price
      quantity paid_amount customer_name d = (Inr u, d')" by simp
  from add_sale_Inr [OF this] show ?thesis
    unfolding dues_by_name_eq_spec outstanding_due_spec_def
    by (auto simp: sale_row_def)
qed

lemma ali_db_from_sale:
  "add_sale ''wholesale'' ''P1'' ''Tea'' 10 6 10 40 (Some ''Ali'') (shop 20 5 15) =
     (Inr (), ali_db)"
  by (simp add: run_defs shop_def tea_def strip_sample ali_db_def)

section \<open>The backfill\<close>

text \<open>
  A row that the backfill splits is no longer selected by its \<^verbatim>\<open>WHERE\<close> clause, since
  the store gets at least one unit: the backfill is never applied twice to a row, and
  what it writes satisfies \<open>warehouse_quantity + store_quantity = quantity\<close>.
\<close>

lemma map_of_set_cell:
  "map_of (set_cell column v r) c =
     (if c = column \<and> map_of r c \<noteq> None then Some v else map_of r c)"
  by (induction r) (auto simp: set_cell_def)

lemma split_row_is_split:
  assumes "unsplit r"
  shows "\<not> unsplit (split_row r)"
proof -
  from assms obtain q where q: "map_of r ''quantity'' = Some (IntV q)" "0 < q"
    and s: "map_of r ''store_quantity'' = Some (IntV 0)"
    by (auto simp: unsplit_def split: option.splits val.splits)
  have "q div 2 + q mod 2 \<noteq> 0" using q(2) by presburger
  then show ?thesis
    using q s by (simp add: unsplit_def split_row_def map_of_set_cell)
qed

lemma split_row_total:
  assumes "unsplit r"
  shows "\<exists>q w s. map_of (split_row r) ''quantity'' = Some (IntV q) \<and>
     map_of (split_row r) ''warehouse_quantity'' = Some (IntV w) \<and>
     map_of (split_row r) ''store_quantity'' = Some (IntV s) \<and>
     w + s = q \<and> 0 \<le> w \<and> 0 < s"
proof -
  from assms obtain q where q: "map_of r ''quantity'' = Some (IntV q)" "0 < q"
    and s: "map_of r ''store_quantity'' = Some (IntV 0)"
    and w: "map_of r ''warehouse_quantity'' = Some (IntV 0)"
    by (auto simp: unsplit_def split: option.splits val.splits)
  have "q div 2 + (q div 2 + q mod 2) = q" "0 \<le> q div 2" "0 < q div 2 + q mod 2"
    using q(2) by presburger+
  then show ?thesis
    using q s w by (simp add: split_row_def map_of_set_cell)
qed

lemma backfill_rows_idem:
  "map (\<lambda>r. if unsplit r then split_row r else r)
     (map (\<lambda>r. if unsplit r then split_row r else r) rows) =
   map (\<lambda>r. if unsplit r then split_row r else r) rows"
  by (induction rows) (simp_all add: split_row_is_split)

lemma no_unsplit_after_backfill:
  "filter unsplit (map (\<lambda>r. if unsplit r then split_row r else r) rows) = []"
  by (induction rows) (simp_all add: split_row_is_split)

section \<open>Runs of the migration\<close>

text \<open>
  A storage that is \<open>settled\<close> is left as it is by \<^verbatim>\<open>init_database\<close>. A run that starts
  without a \<^verbatim>\<open>products\<close> table, or with one that already has a location column, ends
  in a settled storage, so the run after it is a no-op; a run after any two runs is one
  as well. The remaining start, a \<^verbatim>\<open>products\<close> table with neither location column, is
  the one of claim C4 below.
\<close>

lemma create_table_exists:
  "find_table name st \<noteq> None \<Longrightarrow> create_table_if_not_exists name columns st = Inr st"
  by (auto simp: create_table_if_not_exists_def)

lemma create_index_exists:
  "index \<in> set (indexes st) \<Longrightarrow> create_index_if_not_exists index name column st = Inr st"
  by (simp add: create_index_if_not_exists_def)

lemma create_indexes_settled:
  "set index_names \<subseteq> set (indexes st) \<Longrightarrow> create_indexes st = Inr st"
  by (simp add: create_indexes_def index_names_def create_index_exists)

lemma add_due_amount_settled:
  "has_column ''sales'' ''due_amount'' st \<Longrightarrow> add_due_amount_to_sales_table st = Inr st"
  by (simp add: add_due_amount_to_sales_table_def has_column_def Let_def)

lemma add_warehouse_store_columns_settled:
  "products_split st \<Longrightarrow> add_warehouse_store_columns st = Inr st"
  by (auto simp: add_warehouse_store_columns_def products_split_def table_info_def Let_def
      count_unsplit_def split: option.splits)

lemma products_split_exists: "products_split st \<Longrightarrow> find_table ''products'' st \<noteq> None"
  by (auto simp: products_split_def split: option.splits)

lemma init_database_settled:
  assumes "settled st"
  shows "init_database st = Inr st"
  using assms
  by (simp add: init_database_def settled_def create_products_table_def
      create_customers_table_def create_sales_table_def create_dues_received_table_def
      create_expenses_table_def create_table_exists products_split_exists
      add_due_amount_settled add_warehouse_store_columns_settled create_indexes_settled)


lemma map_of_replace:
  "map_of (map (\<lambda>(k, old). if k = n then (k, t) else (k, old)) xs) m =
     (if m = n \<and> map_of xs n \<noteq> None then Some t else map_of xs m)"
  by (induction xs) auto

lemma find_table_put_table:
  "find_table m (put_table n t st) =
     (if m = n \<and> find_table n st \<noteq> None then Some t else find_table m st)"
  by (simp add: find_table_def put_table_def map_of_replace)

lemma indexes_put_table: "indexes (put_table n t st) = indexes st"
  by (simp add: put_table_def)

lemma create_table_Inr:
  assumes "create_table_if_not_exists name columns st = Inr st'"
  shows "find_table name st' \<noteq> None"
    and "find_table m st \<noteq> None \<Longrightarrow> find_table m st' = find_table m st"
    and "indexes st' = indexes st"
    and "find_table name st = None \<Longrightarrow>
         find_table name st' = Some \<lparr>t_columns = columns, t_rows = []\<rparr>"
  using assms
  by (auto simp: create_table_if_not_exists_def find_table_def map_add_def
      split: option.splits)

lemma alter_table_Inr:
  assumes "alter_table_add_column name column v st = Inr st'"
  shows "\<exists>t. find_table name st = Some t \<and>
           find_table name st' =
             Some \<lparr>t_columns = t_columns t @ [column],
                   t_rows = map (\<lambda>r. r @ [(column, v)]) (t_rows t)\<rparr>"
    and "m \<noteq> name \<Longrightarrow> find_table m st' = find_table m st"
    and "indexes st' = indexes st"
  using assms
  by (auto simp: alter_table_add_column_def find_table_put_table indexes_put_table
      split: option.splits if_splits)

lemma create_index_Inr:
  assumes "create_index_if_not_exists index name column st = Inr st'"
  shows "tables st' = tables st" and "index \<in> set (indexes st')"
    and "set (indexes st) \<subseteq> set (indexes st')"
  using assms
  by (auto simp: create_index_if_not_exists_def split: option.splits if_splits)

lemma run_index_steps:
  assumes "run_steps (map (\<lambda>(i, n, c). create_index_if_not_exists i n c) specs) st = Inr st'"
  shows "tables st' = tables st \<and> set (map fst specs) \<union> set (indexes st) \<subseteq> set (indexes st')"
  using assms
proof (induction specs arbitrary: st)
  case Nil
  then show ?case by simp
next
  case (Cons spec specs)
  obtain i n c where spec: "spec = (i, n, c)" by (cases spec)
  from Cons.prems spec obtain st1 where
    one: "create_index_if_not_exists i n c st = Inr st1" and
    rest: "run_steps (map (\<lambda>(i, n, c). create_index_if_not_exists i n c) specs) st1 = Inr st'"
    by (auto split: sum.splits)
  from Cons.IH [OF rest] create_index_Inr [OF one] spec show ?case by auto
qed

lemma create_indexes_Inr:
  assumes "create_indexes st = Inr st'"
  shows "tables st' = tables st" and "set index_names \<subseteq> set (indexes st')"
proof -
  have eq: "create_indexes =
     run_steps (map (\<lambda>(i, n, c). create_index_if_not_exists i n c)
       [(''idx_products_name'', ''products'', ''name''),
        (''idx_products_company'', ''products'', ''company''),
        (''idx_sales_date'', ''sales'', ''date''),
        (''idx_sales_customer'', ''sales'', ''customer_name''),
        (''idx_sales_product_id'', ''sales'', ''product_id''),
        (''idx_customers_name'', ''customers'', ''full_name''),
        (''idx_customers_phone'', ''customers'', ''phone_number''),
        (''idx_dues_customer'', ''dues_received'', ''customer_name''),
        (''idx_dues_date'', ''dues_received'', ''received_date''),
        (''idx_expenses_date'', ''expenses'', ''date''),
        (''idx_expenses_category'', ''expenses'', ''category'')])"
    by (simp add: create_indexes_def)
  from assms run_index_steps [of _ st st'] show "tables st' = tables st"
    unfolding eq by blast
  from assms run_index_steps [of _ st st'] show "set index_names \<subseteq> set (indexes st')"
    unfolding eq index_names_def by fastforce
qed


lemma add_due_amount_Inr:
  assumes "add_due_amount_to_sales_table st = Inr st'"
  shows "has_column ''sales'' ''due_amount'' st'"
    and "m \<noteq> ''sales'' \<Longrightarrow> find_table m st' = find_table m st"
    and "find_table ''sales'' st \<noteq> None \<Longrightarrow> find_table ''sales'' st' \<noteq> None"
    and "indexes st' = indexes st"
proof -
  show "has_column ''sales'' ''due_amount'' st'"
  proof (cases "''due_amount'' \<in> set (table_info ''sales'' st)")
    case True
    with assms show ?thesis
      by (simp add: add_due_amount_to_sales_table_def has_column_def Let_def)
  next
    case False
    with assms have "alter_table_add_column ''sales'' ''due_amount'' (RealV 0) st = Inr st'"
      by (simp add: add_due_amount_to_sales_table_def Let_def)
    from alter_table_Inr(1) [OF this] show ?thesis
      by (auto simp: has_column_def table_info_def)
  qed
  show "m \<noteq> ''sales'' \<Longrightarrow> find_table m st' = find_table m st"
    using assms alter_table_Inr(2) [of "''sales''" "''due_amount''" "RealV 0" st st' m]
    by (auto simp: add_due_amount_to_sales_table_def Let_def split: if_splits)
  show "find_table ''sales'' st \<noteq> None \<Longrightarrow> find_table ''sales'' st' \<noteq> None"
    using assms alter_table_Inr(1) [of "''sales''" "''due_amount''" "RealV 0" st st']
    by (auto simp: add_due_amount_to_sales_table_def Let_def split: if_splits)
  show "indexes st' = indexes st"
    using assms alter_table_Inr(3) [of "''sales''" "''due_amount''" "RealV 0" st st']
    by (auto simp: add_due_amount_to_sales_table_def Let_def split: if_splits)
qed

lemma update_unsplit_Inr:
  assumes "update_unsplit st = Inr st'"
  shows "products_split st'"
    and "m \<noteq> ''products'' \<Longrightarrow> find_table m st' = find_table m st"
    and "indexes st' = indexes st"
  using assms
  by (auto simp: update_unsplit_def products_split_def find_table_put_table
      indexes_put_table no_unsplit_after_backfill split: option.splits if_splits)

lemma count_unsplit_zero:
  assumes "count_unsplit st = Inr 0"
  shows "products_split st"
  using assms
  by (auto simp: count_unsplit_def products_split_def split: option.splits if_splits)

lemma optional_alter:
  assumes "(if c then alter_table_add_column name column v st else Inr st) = Inr st'"
  shows "m \<noteq> name \<Longrightarrow> find_table m st' = find_table m st"
    and "indexes st' = indexes st"
  using assms alter_table_Inr(2,3) [of name column v st st']
  by (auto split: if_splits)

lemma add_warehouse_store_columns_Inr:
  assumes "add_warehouse_store_columns st = Inr st'"
    and "has_column ''products'' ''warehouse_quantity'' st \<or>
         has_column ''products'' ''store_quantity'' st"
  shows "products_split st'"
    and "m \<noteq> ''products'' \<Longrightarrow> find_table m st' = find_table m st"
    and "indexes st' = indexes st"
proof -
  let ?columns = "table_info ''products'' st"
  from assms(1) obtain st1 where
    one: "(if ''warehouse_quantity'' \<notin> set ?columns
           then alter_table_add_column ''products'' ''warehouse_quantity'' (IntV 0) st
           else Inr st) = Inr st1"
    by (auto simp: add_warehouse_store_columns_def Let_def split: sum.splits)
  from assms(1) one obtain st2 where
    two: "(if ''store_quantity'' \<notin> set ?columns
           then alter_table_add_column ''products'' ''store_quantity'' (IntV 0) st1
           else Inr st1) = Inr st2"
    by (auto simp: add_warehouse_store_columns_def Let_def split: sum.splits)
  from assms one two obtain count where
    count: "count_unsplit st2 = Inr count" and
    last: "(if 0 < count then update_unsplit st2 else Inr st2) = Inr st'"
    by (auto simp: add_warehouse_store_columns_def Let_def has_column_def split: sum.splits)
  have frame2: "\<And>m. m \<noteq> ''products'' \<Longrightarrow> find_table m st2 = find_table m st"
    using optional_alter(1) [OF one] optional_alter(1) [OF two] by simp
  have idx2: "indexes st2 = indexes st"
    using optional_alter(2) [OF one] optional_alter(2) [OF two] by simp
  show "products_split st'"
  proof (cases "0 < count")
    case True
    with last update_unsplit_Inr(1) show ?thesis by simp
  next
    case False
    with last count count_unsplit_zero show ?thesis by simp
  qed
  show "m \<noteq> ''products'' \<Longrightarrow> find_table m st' = find_table m st"
    using last frame2 update_unsplit_Inr(2) [of st2 st' m] by (auto split: if_splits)
  show "indexes st' = indexes st"
    using last idx2 update_unsplit_Inr(3) [of st2 st'] by (auto split: if_splits)
qed


lemma init_database_settles:
  assumes "init_database st = Inr st'"
    and "find_table ''products'' st = None \<or>
         has_column ''products'' ''warehouse_quantity'' st \<or>
         has_column ''products'' ''store_quantity'' st"
  shows "settled st'"
proof -
  from assms(1) obtain s1 s2 s3 s4 s5 s6 s7 where
    c1: "create_products_table st = Inr s1" and
    c2: "create_customers_table s1 = Inr s2" and
    c3: "create_sales_table s2 = Inr s3" and
    c4: "create_dues_received_table s3 = Inr s4" and
    c5: "create_expenses_table s4 = Inr s5" and
    c6: "add_due_amount_to_sales_table s5 = Inr s6" and
    c7: "add_warehouse_store_columns s6 = Inr s7" and
    c8: "create_indexes s7 = Inr st'"
    by (auto simp: init_database_def split: sum.splits)
  note t1 = create_table_Inr [OF c1 [unfolded create_products_table_def]]
  note t2 = create_table_Inr [OF c2 [unfolded create_customers_table_def]]
  note t3 = create_table_Inr [OF c3 [unfolded create_sales_table_def]]
  note t4 = create_table_Inr [OF c4 [unfolded create_dues_received_table_def]]
  note t5 = create_table_Inr [OF c5 [unfolded create_expenses_table_def]]
  note d6 = add_due_amount_Inr [OF c6]
  have p1: "find_table ''products'' s1 \<noteq> None" by (rule t1(1))
  have col1: "has_column ''products'' ''warehouse_quantity'' s1 \<or>
         has_column ''products'' ''store_quantity'' s1"
  proof (cases "find_table ''products'' st")
    case None
    from t1(4) [OF None] show ?thesis by (simp add: has_column_def table_info_def)
  next
    case (Some t)
    then have "find_table ''products'' s1 = find_table ''products'' st"
      using t1(2) by simp
    with Some assms(2) show ?thesis by (simp add: has_column_def table_info_def)
  qed
  have p6: "find_table ''products'' s6 = find_table ''products'' s1"
    using p1 t2(2) t3(2) t4(2) t5(2) d6(2) by simp
  then have col6: "has_column ''products'' ''warehouse_quantity'' s6 \<or>
         has_column ''products'' ''store_quantity'' s6"
    using col1 by (simp add: has_column_def table_info_def)
  note w7 = add_warehouse_store_columns_Inr [OF c7 col6]
  note i8 = create_indexes_Inr [OF c8]
  have same8: "\<And>m. find_table m st' = find_table m s7"
    using i8(1) by (simp add: find_table_def)
  have cust: "find_table ''customers'' st' \<noteq> None"
    using t2(1) t3(2) t4(2) t5(2) d6(2) w7(2) same8 by simp
  have sales5: "find_table ''sales'' s5 \<noteq> None"
    using t3(1) t4(2) t5(2) by simp
  then have sales: "find_table ''sales'' st' \<noteq> None"
    using d6(3) w7(2) same8 by simp
  have dues: "find_table ''dues_received'' st' \<noteq> None"
    using t4(1) t5(2) d6(2) w7(2) same8 by simp
  have expenses: "find_table ''expenses'' st' \<noteq> None"
    using t5(1) d6(2) w7(2) same8 by simp
  have due: "has_column ''sales'' ''due_amount'' st'"
    using d6(1) w7(2) same8 by (simp add: has_column_def table_info_def)
  have split: "products_split st'"
    using w7(1) same8 by (simp add: products_split_def)
  show ?thesis
    unfolding settled_def using cust sales dues expenses due split i8(2) by simp
qed

lemma init_database_second_run_no_op:
  assumes "init_database st = Inr st'"
    and "find_table ''products'' st = None \<or>
         has_column ''products'' ''warehouse_quantity'' st \<or>
         has_column ''products'' ''store_quantity'' st"
  shows "init_database st' = Inr st'"
  using init_database_settles [OF assms] by (rule init_database_settled)


lemma add_warehouse_store_columns_adds:
  assumes "add_warehouse_store_columns st = Inr st'"
  shows "has_column ''products'' ''warehouse_quantity'' st'"
proof (cases "has_column ''products'' ''warehouse_quantity'' st \<or>
         has_column ''products'' ''store_quantity'' st")
  case True
  from add_warehouse_store_columns_Inr(1) [OF assms True] show ?thesis
    by (auto simp: products_split_def has_column_def table_info_def split: option.splits)
next
  case False
  then have absent: "''warehouse_quantity'' \<notin> set (table_info ''products'' st)"
    "''store_quantity'' \<notin> set (table_info ''products'' st)"
    by (simp_all add: has_column_def)
  from assms absent obtain st1 where
    one: "alter_table_add_column ''products'' ''warehouse_quantity'' (IntV 0) st = Inr st1" and
    two: "alter_table_add_column ''products'' ''store_quantity'' (IntV 0) st1 = Inr st'"
    by (auto simp: add_warehouse_store_columns_def Let_def split: sum.splits)
  from alter_table_Inr(1) [OF one] alter_table_Inr(1) [OF two] show ?thesis
    by (auto simp: has_column_def table_info_def)
qed

lemma init_database_adds_columns:
  assumes "init_database st = Inr st'"
  shows "has_column ''products'' ''warehouse_quantity'' st'"
proof -
  from assms obtain s6 s7 where
    c7: "add_warehouse_store_columns s6 = Inr s7" and
    c8: "create_indexes s7 = Inr st'"
    by (auto simp: init_database_def split: sum.splits)
  from create_indexes_Inr(1) [OF c8] add_warehouse_store_columns_adds [OF c7]
  show ?thesis by (simp add: has_column_def table_info_def find_table_def)
qed

lemma init_database_third_run_no_op:
  assumes "init_database st = Inr st1" and "init_database st1 = Inr st2"
  shows "init_database st2 = Inr st2"
  using init_database_second_run_no_op [OF assms(2)] init_database_adds_columns [OF assms(1)]
  by blast

section \<open>Claims about a sale\<close>

text \<open>
  Claim C3. A successful \<^verbatim>\<open>add_sale\<close> appends one row to \<^verbatim>\<open>sales\<close>, and that row has
  \<open>total = selling_price * quantity\<close>, \<open>profit = (selling_price - cost_price) * quantity\<close>
  and \<open>due_amount = total - paid_amount\<close> with \<open>due_amount \<ge> 0\<close>. A call with
  \<open>paid_amount > total\<close> raises before any statement runs: the database it leaves is
  the database it found, so no sale row and no stock change is persisted.
\<close>
theorem add_sale_row_amounts:
  "(add_sale sale_type product_id product_name selling_price cost_price quantity
      paid_amount customer_name d = (Inr u, d') \<longrightarrow>
      (\<exists>row. sales d' = sales d @ [row] \<and>
         s_selling_price row = selling_price \<and> s_cost_price row = cost_price \<and>
         s_quantity row = quantity \<and> s_paid_amount row = paid_amount \<and>
         s_total row = s_selling_price row * of_int (s_quantity row) \<and>
         s_profit row = (s_selling_price row - s_cost_price row) * of_int (s_quantity row) \<and>
         s_due_amount row = s_total row - s_paid_amount row \<and> 0 \<le> s_due_amount row)) \<and>
   (selling_price * of_int quantity < paid_amount \<longrightarrow>
      add_sale sale_type product_id product_name selling_price cost_price quantity
        paid_amount customer_name d =
      (Inl (ValueError ''Paid amount cannot exceed total amount''), d))"
proof (intro conjI impI)
  assume ok: "add_sale sale_type product_id product_name selling_price cost_price quantity
      paid_amount customer_name d = (Inr u, d')"
  from add_sale_Inr [OF ok] obtain prod_row where
    paid: "paid_amount \<le> selling_price * of_int quantity" and
    d': "d' = d\<lparr>sales := sales d @ [sale_row sale_type product_id product_name selling_price
                cost_price quantity paid_amount customer_name],
            products := (products d)(product_id \<mapsto>
              prod_row\<lparr>p_name := strip (p_name prod_row),
                       p_company := strip (p_company prod_row),
                       p_cost_price := p_cost_price prod_row,
                       p_quantity := p_quantity prod_row - quantity,
                       p_warehouse_quantity := p_warehouse_quantity prod_row,
                       p_store_quantity := p_store_quantity prod_row - quantity\<rparr>)\<rparr>"
    by blast
  let ?row = "sale_row sale_type product_id product_name selling_price cost_price quantity
     paid_amount customer_name"
  have "sales d' = sales d @ [?row]" by (simp add: d')
  with paid show "\<exists>row. sales d' = sales d @ [row] \<and>
         s_selling_price row = selling_price \<and> s_cost_price row = cost_price \<and>
         s_quantity row = quantity \<and> s_paid_amount row = paid_amount \<and>
         s_total row = s_selling_price row * of_int (s_quantity row) \<and>
         s_profit row = (s_selling_price row - s_cost_price row) * of_int (s_quantity row) \<and>
         s_due_amount row = s_total row - s_paid_amount row \<and> 0 \<le> s_due_amount row"
    by (intro exI [of _ ?row]) (simp add: sale_row_def)
next
  assume "selling_price * of_int quantity < paid_amount"
  then show "add_sale sale_type product_id product_name selling_price cost_price quantity
        paid_amount customer_name d =
      (Inl (ValueError ''Paid amount cannot exceed total amount''), d)"
    by (rule add_sale_overpaid)
qed

theorem add_sale_row_amounts_witness:
  "add_sale ''retail'' ''P1'' ''Tea'' 10 6 3 30 None (shop 20 15 5) =
     (Inr (), \<lparr>products = [''P1'' \<mapsto> tea 17 15 2],
        sales = [sale_row ''retail'' ''P1'' ''Tea'' 10 6 3 30 None], dues_received = []\<rparr>) \<and>
   (\<exists>row. sales \<lparr>products = [''P1'' \<mapsto> tea 17 15 2],
        sales = [sale_row ''retail'' ''P1'' ''Tea'' 10 6 3 30 None], dues_received = []\<rparr> = [row] \<and>
      s_total row = 30 \<and> s_profit row = 12 \<and> s_due_amount row = 0) \<and>
   (10 :: real) * of_int 3 < 31 \<and>
   add_sale ''retail'' ''P1'' ''Tea'' 10 6 3 31 None (shop 20 15 5) =
     (Inl (ValueError ''Paid amount cannot exceed total amount''), shop 20 15 5)"
proof -
  have run: "add_sale ''retail'' ''P1'' ''Tea'' 10 6 3 30 None (shop 20 15 5) =
     (Inr (), \<lparr>products = [''P1'' \<mapsto> tea 17 15 2],
        sales = [sale_row ''retail'' ''P1'' ''Tea'' 10 6 3 30 None], dues_received = []\<rparr>)"
    by (simp add: run_defs shop_def tea_def strip_sample)
  have over: "(10 :: real) * of_int 3 < 31" by simp
  from add_sale_row_amounts [of "''retail''" "''P1''" "''Tea''" 10 6 3 30 None "shop 20 15 5"
      "()" "\<lparr>products = [''P1'' \<mapsto> tea 17 15 2],
        sales = [sale_row ''retail'' ''P1'' ''Tea'' 10 6 3 30 None], dues_received = []\<rparr>"] run
  have a: "\<exists>row. sales \<lparr>products = [''P1'' \<mapsto> tea 17 15 2],
        sales = [sale_row ''retail'' ''P1'' ''Tea'' 10 6 3 30 None], dues_received = []\<rparr> = [row] \<and>
      s_total row = 30 \<and> s_profit row = 12 \<and> s_due_amount row = 0"
    by (auto simp: shop_def)
  from add_sale_row_amounts [of "''retail''" "''P1''" "''Tea''" 10 6 3 31 None "shop 20 15 5"] over
  have b: "add_sale ''retail'' ''P1'' ''Tea'' 10 6 3 31 None (shop 20 15 5) =
     (Inl (ValueError ''Paid amount cannot exceed total amount''), shop 20 15 5)"
    by blast
  from run a over b show ?thesis by blast
qed

text \<open>
  Claim C6. After a successful \<^verbatim>\<open>add_sale\<close> of \<open>quantity\<close> units the product's
  \<open>store_quantity\<close> and \<open>quantity\<close> are each lower by exactly \<open>quantity\<close>, and its
  \<open>warehouse_quantity\<close> is what it was.
\<close>
theorem add_sale_deducts_from_store:
  assumes "add_sale sale_type product_id product_name selling_price cost_price quantity
      paid_amount customer_name d = (Inr u, d')"
  shows "\<exists>before after. products d product_id = Some before \<and>
     products d' product_id = Some after \<and>
     p_store_quantity after = p_store_quantity before - quantity \<and>
     p_quantity after = p_quantity before - quantity \<and>
     p_warehouse_quantity after = p_warehouse_quantity before"
proof -
  from add_sale_Inr [OF assms] obtain prod_row where
    p: "products d product_id = Some prod_row" and
    d': "d' = d\<lparr>sales := sales d @ [sale_row sale_type product_id product_name selling_price
                cost_price quantity paid_amount customer_name],
            products := (products d)(product_id \<mapsto>
              prod_row\<lparr>p_name := strip (p_name prod_row),
                       p_company := strip (p_company prod_row),
                       p_cost_price := p_cost_price prod_row,
                       p_quantity := p_quantity prod_row - quantity,
                       p_warehouse_quantity := p_warehouse_quantity prod_row,
                       p_store_quantity := p_store_quantity prod_row - quantity\<rparr>)\<rparr>"
    by blast
  show ?thesis using p by (simp add: d')
qed

theorem add_sale_deducts_from_store_witness:
  "add_sale ''retail'' ''P1'' ''Tea'' 10 6 3 30 None (shop 20 15 5) =
     (Inr (), \<lparr>products = [''P1'' \<mapsto> tea 17 15 2],
        sales = [sale_row ''retail'' ''P1'' ''Tea'' 10 6 3 30 None], dues_received = []\<rparr>) \<and>
   (\<exists>before after. products (shop 20 15 5) ''P1'' = Some before \<and>
     products \<lparr>products = [''P1'' \<mapsto> tea 17 15 2],
        sales = [sale_row ''retail'' ''P1'' ''Tea'' 10 6 3 30 None], dues_received = []\<rparr> ''P1''
       = Some after \<and>
     p_store_quantity after = p_store_quantity before - 3 \<and>
     p_quantity after = p_quantity before - 3 \<and>
     p_warehouse_quantity after = p_warehouse_quantity before)"
proof -
  have run: "add_sale ''retail'' ''P1'' ''Tea'' 10 6 3 30 None (shop 20 15 5) =
     (Inr (), \<lparr>products = [''P1'' \<mapsto> tea 17 15 2],
        sales = [sale_row ''retail'' ''P1'' ''Tea'' 10 6 3 30 None], dues_received = []\<rparr>)"
    by (simp add: run_defs shop_def tea_def strip_sample)
  from add_sale_deducts_from_store [OF run] run show ?thesis by blast
qed

text \<open>
  Claim C1 says that an \<^verbatim>\<open>add_sale\<close> that fails for a missing product or for too little
  store stock leaves both tables as they were. The source commits the sale row before it
  looks the product up, so the call fails and the \<^verbatim>\<open>products\<close> table is untouched, but
  the sale row stays. Evaluated on the sample shop with 2 units in the store and a sale
  of 3, and on a product id that does not exist:
\<close>
theorem add_sale_failure_keeps_sale_row:
  "add_sale ''retail'' ''P1'' ''Tea'' 10 6 3 30 None (shop 20 18 2) =
     (Inl (ValueError ''Not enough stock in store''),
      (shop 20 18 2)\<lparr>sales := [sale_row ''retail'' ''P1'' ''Tea'' 10 6 3 30 None]\<rparr>) \<and>
   add_sale ''retail'' ''P9'' ''Tea'' 10 6 3 30 None (shop 20 18 2) =
     (Inl (ValueError ''Product not found''),
      (shop 20 18 2)\<lparr>sales := [sale_row ''retail'' ''P9'' ''Tea'' 10 6 3 30 None]\<rparr>) \<and>
   sales (shop 20 18 2) = []"
  by (simp add: run_defs shop_def tea_def strip_sample)

text \<open>
  Claim C9 says that \<^verbatim>\<open>add_sale\<close> accepts no wholesale sale without a customer name.
  The function never looks at \<^verbatim>\<open>customer_name\<close>, and the column is nullable; it is the
  sales page that asks for a customer before it calls. A wholesale sale with
  \<^verbatim>\<open>customer_name = None\<close> succeeds and is persisted with a null customer name:
\<close>
theorem wholesale_sale_without_customer_name:
  "add_sale ''wholesale'' ''P1'' ''Tea'' 10 6 3 0 None (shop 20 15 5) =
     (Inr (), (shop 17 15 2)\<lparr>sales := [sale_row ''wholesale'' ''P1'' ''Tea'' 10 6 3 0 None]\<rparr>) \<and>
   s_sale_type (sale_row ''wholesale'' ''P1'' ''Tea'' 10 6 3 0 None) = ''wholesale'' \<and>
   s_customer_name (sale_row ''wholesale'' ''P1'' ''Tea'' 10 6 3 0 None) = None"
  by (simp add: run_defs shop_def tea_def strip_sample)

text \<open>
  Claim C9 as amended. \<^verbatim>\<open>add_sale\<close> returns or raises the same with a customer name as
  without one, and the row of a successful call carries the sale type and the customer
  name of the call as they were passed, \<^verbatim>\<open>None\<close> included.
\<close>

theorem add_sale_stores_customer_name_as_given:
  "fst (add_sale sale_type product_id product_name selling_price cost_price quantity
          paid_amount customer_name d) =
   fst (add_sale sale_type product_id product_name selling_price cost_price quantity
          paid_amount None d) \<and>
   (add_sale sale_type product_id product_name selling_price cost_price quantity
      paid_amount customer_name d = (Inr u, d') \<longrightarrow>
      (\<exists>row. sales d' = sales d @ [row] \<and> s_sale_type row = sale_type \<and>
         s_customer_name row = customer_name))"
proof (intro conjI impI)
  show "fst (add_sale sale_type product_id product_name selling_price cost_price quantity
          paid_amount customer_name d) =
   fst (add_sale sale_type product_id product_name selling_price cost_price quantity
          paid_amount None d)"
    using add_sale_outcome_ignores_customer by blast
next
  assume ok: "add_sale sale_type product_id product_name selling_price cost_price quantity
      paid_amount customer_name d = (Inr u, d')"
  from add_sale_Inr [OF ok] obtain prod_row :: product where
    d': "d' = d\<lparr>sales := sales d @ [sale_row sale_type product_id product_name selling_price
                cost_price quantity paid_amount customer_name],
            products := (products d)(product_id \<mapsto>
              prod_row\<lparr>p_name := strip (p_name prod_row),
                       p_company := strip (p_company prod_row),
                       p_cost_price := p_cost_price prod_row,
                       p_quantity := p_quantity prod_row - quantity,
                       p_warehouse_quantity := p_warehouse_quantity prod_row,
                       p_store_quantity := p_store_quantity prod_row - quantity\<rparr>)\<rparr>"
    by blast
  show "\<exists>row. sales d' = sales d @ [row] \<and> s_sale_type row = sale_type \<and>
         s_customer_name row = customer_name"
    by (intro exI [of _ "sale_row sale_type product_id product_name selling_price
                cost_price quantity paid_amount customer_name"]) (simp add: d' sale_row_def)
qed

theorem add_sale_stores_customer_name_as_given_witness:
  "add_sale ''wholesale'' ''P1'' ''Tea'' 10 6 3 0 (Some ''Ali'') (shop 20 15 5) =
     (Inr (), (shop 17 15 2)\<lparr>sales :=
        [sale_row ''wholesale'' ''P1'' ''Tea'' 10 6 3 0 (Some ''Ali'')]\<rparr>) \<and>
   fst (add_sale ''wholesale'' ''P1'' ''Tea'' 10 6 3 0 None (shop 20 15 5)) = Inr () \<and>
   (\<exists>row. sales ((shop 17 15 2)\<lparr>sales :=
        [sale_row ''wholesale'' ''P1'' ''Tea'' 10 6 3 0 (Some ''Ali'')]\<rparr>) = [row] \<and>
      s_sale_type row = ''wholesale'' \<and> s_customer_name row = Some ''Ali'')"
proof -
  have run: "add_sale ''wholesale'' ''P1'' ''Tea'' 10 6 3 0 (Some ''Ali'') (shop 20 15 5) =
     (Inr (), (shop 17 15 2)\<lparr>sales :=
        [sale_row ''wholesale'' ''P1'' ''Tea'' 10 6 3 0 (Some ''Ali'')]\<rparr>)"
    by (simp add: run_defs shop_def tea_def strip_sample)
  from add_sale_stores_customer_name_as_given [of "''wholesale''" "''P1''" "''Tea''" 10 6 3 0
      "Some ''Ali''" "shop 20 15 5" "()" "(shop 17 15 2)\<lparr>sales :=
        [sale_row ''wholesale'' ''P1'' ''Tea'' 10 6 3 0 (Some ''Ali'')]\<rparr>"] run
  show ?thesis by (simp add: shop_def)
qed




section \<open>Claims about the product functions\<close>

text \<open>
  Claim C5. A successful \<^verbatim>\<open>transfer_inventory\<close> leaves the product's total quantity as
  it was, takes exactly \<open>quantity\<close> from the source location and adds it to the
  destination, and leaves name, company and cost price as they were. The function
  writes through \<^verbatim>\<open>update_product\<close>, which stores \<^verbatim>\<open>name.strip()\<close> and
  \<^verbatim>\<open>company.strip()\<close>; these are the stored texts again because the row was itself
  written stripped, as every row that \<^verbatim>\<open>add_product\<close> or \<^verbatim>\<open>update_product\<close> writes is
  (\<open>reachable_rows\<close>).
\<close>
theorem transfer_inventory_conserves:
  assumes "transfer_inventory product_id from_location to_location quantity notes d =
      (Inr u, d')"
    and "products d product_id = Some before"
    and "stored_stripped before"
  shows "\<exists>after. products d' product_id = Some after \<and>
     p_quantity after = p_quantity before \<and>
     (if from_location = ''warehouse''
      then to_location = ''store'' \<and>
           p_warehouse_quantity after = p_warehouse_quantity before - quantity \<and>
           p_store_quantity after = p_store_quantity before + quantity
      else from_location = ''store'' \<and> to_location = ''warehouse'' \<and>
           p_store_quantity after = p_store_quantity before - quantity \<and>
           p_warehouse_quantity after = p_warehouse_quantity before + quantity) \<and>
     p_name after = p_name before \<and> p_company after = p_company before \<and>
     p_cost_price after = p_cost_price before"
proof -
  from transfer_inventory_Inr [OF assms(1)] assms(2)
  have dir: "(from_location = ''warehouse'' \<and> to_location = ''store'') \<or>
      (from_location = ''store'' \<and> to_location = ''warehouse'')"
    and upd: "update_product product_id (p_name before) (p_company before)
       (p_cost_price before) (Some (p_quantity before))
       (Some (if from_location = ''warehouse'' then p_warehouse_quantity before - quantity
              else p_warehouse_quantity before + quantity))
       (Some (if from_location = ''warehouse'' then p_store_quantity before + quantity
              else p_store_quantity before - quantity)) d = (Inr u, d')"
    by auto
  from update_product_Inr [OF upd] assms(2)
  have d': "d' = d\<lparr>products := (products d)(product_id \<mapsto>
            before\<lparr>p_name := strip (p_name before), p_company := strip (p_company before),
                    p_cost_price := p_cost_price before,
                    p_quantity := p_quantity before,
                    p_warehouse_quantity :=
                      (if from_location = ''warehouse''
                       then p_warehouse_quantity before - quantity
                       else p_warehouse_quantity before + quantity),
                    p_store_quantity :=
                      (if from_location = ''warehouse''
                       then p_store_quantity before + quantity
                       else p_store_quantity before - quantity)\<rparr>)\<rparr>"
    by auto
  show ?thesis
    using dir assms(3) by (auto simp: d' stored_stripped_def)
qed

theorem transfer_inventory_conserves_witness:
  "transfer_inventory ''P1'' ''warehouse'' ''store'' 5 [] (shop 20 20 0) =
     (Inr (), shop 20 15 5) \<and>
   products (shop 20 20 0) ''P1'' = Some (tea 20 20 0) \<and> stored_stripped (tea 20 20 0) \<and>
   (\<exists>after. products (shop 20 15 5) ''P1'' = Some after \<and> p_quantity after = 20 \<and>
      p_warehouse_quantity after = 20 - 5 \<and> p_store_quantity after = 0 + 5 \<and>
      p_name after = ''Tea'' \<and> p_company after = ''Acme'' \<and> p_cost_price after = 6)"
proof -
  have run: "transfer_inventory ''P1'' ''warehouse'' ''store'' 5 [] (shop 20 20 0) =
     (Inr (), shop 20 15 5)"
    by (simp add: run_defs shop_def tea_def strip_sample)
  have row: "products (shop 20 20 0) ''P1'' = Some (tea 20 20 0)"
    by (simp add: shop_def)
  have str: "stored_stripped (tea 20 20 0)"
    by (simp add: stored_stripped_def tea_def strip_sample)
  from transfer_inventory_conserves [OF run row str]
  have "\<exists>after. products (shop 20 15 5) ''P1'' = Some after \<and> p_quantity after = 20 \<and>
      p_warehouse_quantity after = 20 - 5 \<and> p_store_quantity after = 0 + 5 \<and>
      p_name after = ''Tea'' \<and> p_company after = ''Acme'' \<and> p_cost_price after = 6"
    by (auto simp: tea_def)
  with run row str show ?thesis by blast
qed

text \<open>
  Claim C8. \<^verbatim>\<open>update_product\<close> fails when the id is not in the table. When it succeeds,
  each quantity of the written row is the argument if one was given and the currently
  stored value if it was omitted, and the written row satisfies the quantity invariant:
  merged values that break it are refused with the table unchanged.
\<close>
theorem update_product_merges_current:
  "(products d product_id = None \<longrightarrow>
      (\<exists>e. update_product product_id name company cost_price quantity warehouse_quantity
         store_quantity d = (Inl e, d))) \<and>
   (update_product product_id name company cost_price quantity warehouse_quantity
      store_quantity d = (Inr u, d') \<longrightarrow>
      (\<exists>current written. products d product_id = Some current \<and>
         products d' product_id = Some written \<and>
         p_quantity written =
           (case quantity of None \<Rightarrow> p_quantity current | Some q \<Rightarrow> q) \<and>
         p_warehouse_quantity written =
           (case warehouse_quantity of
              None \<Rightarrow> p_warehouse_quantity current | Some w \<Rightarrow> w) \<and>
         p_store_quantity written =
           (case store_quantity of None \<Rightarrow> p_store_quantity current | Some s \<Rightarrow> s) \<and>
         p_name written = strip name \<and> p_company written = strip company \<and>
         p_cost_price written = cost_price \<and> quantity_invariant written)) \<and>
   (products d product_id = Some stored \<and>
    \<not> split_ok (case quantity of None \<Rightarrow> p_quantity stored | Some q \<Rightarrow> q)
          (case warehouse_quantity of None \<Rightarrow> p_warehouse_quantity stored | Some w \<Rightarrow> w)
          (case store_quantity of None \<Rightarrow> p_store_quantity stored | Some s \<Rightarrow> s) \<longrightarrow>
      (\<exists>e. update_product product_id name company cost_price quantity warehouse_quantity
         store_quantity d = (Inl e, d)))"
proof (intro conjI impI)
  assume none: "products d product_id = None"
  obtain r d1 where res: "update_product product_id name company cost_price quantity
      warehouse_quantity store_quantity d = (r, d1)"
    by (cases "update_product product_id name company cost_price quantity
      warehouse_quantity store_quantity d") blast
  show "\<exists>e. update_product product_id name company cost_price quantity warehouse_quantity
         store_quantity d = (Inl e, d)"
  proof (cases r)
    case (Inl e)
    with res update_product_Inl [of product_id name company cost_price quantity
        warehouse_quantity store_quantity d e d1]
    show ?thesis by auto
  next
    case (Inr v)
    with res update_product_Inr [of product_id name company cost_price quantity
        warehouse_quantity store_quantity d v d1] none
    show ?thesis by auto
  qed
next
  assume ok: "update_product product_id name company cost_price quantity warehouse_quantity
      store_quantity d = (Inr u, d')"
  from update_product_Inr [OF ok] obtain current where
    c: "products d product_id = Some current" and
    d': "d' = d\<lparr>products := (products d)(product_id \<mapsto>
            current\<lparr>p_name := strip name, p_company := strip company,
                    p_cost_price := cost_price,
                    p_quantity := (case quantity of None \<Rightarrow> p_quantity current | Some q \<Rightarrow> q),
                    p_warehouse_quantity :=
                      (case warehouse_quantity of
                         None \<Rightarrow> p_warehouse_quantity current | Some w \<Rightarrow> w),
                    p_store_quantity :=
                      (case store_quantity of
                         None \<Rightarrow> p_store_quantity current | Some s \<Rightarrow> s)\<rparr>)\<rparr>" and
    ok: "split_ok (case quantity of None \<Rightarrow> p_quantity current | Some q \<Rightarrow> q)
       (case warehouse_quantity of None \<Rightarrow> p_warehouse_quantity current | Some w \<Rightarrow> w)
       (case store_quantity of None \<Rightarrow> p_store_quantity current | Some s \<Rightarrow> s)"
    by blast
  show "\<exists>current written. products d product_id = Some current \<and>
         products d' product_id = Some written \<and>
         p_quantity written =
           (case quantity of None \<Rightarrow> p_quantity current | Some q \<Rightarrow> q) \<and>
         p_warehouse_quantity written =
           (case warehouse_quantity of
              None \<Rightarrow> p_warehouse_quantity current | Some w \<Rightarrow> w) \<and>
         p_store_quantity written =
           (case store_quantity of None \<Rightarrow> p_store_quantity current | Some s \<Rightarrow> s) \<and>
         p_name written = strip name \<and> p_company written = strip company \<and>
         p_cost_price written = cost_price \<and> quantity_invariant written"
    using c ok by (simp add: d' quantity_invariant_def)
next
  assume bad: "products d product_id = Some stored \<and>
    \<not> split_ok (case quantity of None \<Rightarrow> p_quantity stored | Some q \<Rightarrow> q)
          (case warehouse_quantity of None \<Rightarrow> p_warehouse_quantity stored | Some w \<Rightarrow> w)
          (case store_quantity of None \<Rightarrow> p_store_quantity stored | Some s \<Rightarrow> s)"
  obtain r d1 where res: "update_product product_id name company cost_price quantity
      warehouse_quantity store_quantity d = (r, d1)"
    by (cases "update_product product_id name company cost_price quantity
      warehouse_quantity store_quantity d") blast
  show "\<exists>e. update_product product_id name company cost_price quantity warehouse_quantity
         store_quantity d = (Inl e, d)"
  proof (cases r)
    case (Inl e)
    with res update_product_Inl [of product_id name company cost_price quantity
        warehouse_quantity store_quantity d e d1]
    show ?thesis by auto
  next
    case (Inr v)
    with res update_product_Inr [of product_id name company cost_price quantity
        warehouse_quantity store_quantity d v d1] bad
    show ?thesis by auto
  qed
qed

theorem update_product_merges_current_witness:
  "products (shop 20 15 5) ''P2'' = None \<and>
   (\<exists>e. update_product ''P2'' ''Tea'' ''Acme'' 7 None None None (shop 20 15 5) =
      (Inl e, shop 20 15 5)) \<and>
   update_product ''P1'' ''Tea'' ''Acme'' 7 None None None (shop 20 15 5) =
     (Inr (), \<lparr>products = [''P1'' \<mapsto> (tea 20 15 5)\<lparr>p_cost_price := 7\<rparr>], sales = [],
               dues_received = []\<rparr>) \<and>
   (\<exists>written. products \<lparr>products = [''P1'' \<mapsto> (tea 20 15 5)\<lparr>p_cost_price := 7\<rparr>],
         sales = [], dues_received = []\<rparr> ''P1'' = Some written \<and>
      p_quantity written = 20 \<and> p_warehouse_quantity written = 15 \<and>
      p_store_quantity written = 5 \<and> p_cost_price written = 7 \<and>
      quantity_invariant written) \<and>
   products (shop 20 15 5) ''P1'' = Some (tea 20 15 5) \<and> \<not> split_ok 20 15 9 \<and>
   (\<exists>e. update_product ''P1'' ''Tea'' ''Acme'' 7 None None (Some 9) (shop 20 15 5) =
      (Inl e, shop 20 15 5))"
proof -
  have none: "products (shop 20 15 5) ''P2'' = None"
    by (simp add: shop_def)
  have run: "update_product ''P1'' ''Tea'' ''Acme'' 7 None None None (shop 20 15 5) =
     (Inr (), \<lparr>products = [''P1'' \<mapsto> (tea 20 15 5)\<lparr>p_cost_price := 7\<rparr>], sales = [],
               dues_received = []\<rparr>)"
    by (simp add: run_defs shop_def tea_def strip_sample)
  from update_product_merges_current [of "shop 20 15 5" "''P2''" "''Tea''" "''Acme''" 7
      None None None] none
  have a: "\<exists>e. update_product ''P2'' ''Tea'' ''Acme'' 7 None None None (shop 20 15 5) =
      (Inl e, shop 20 15 5)"
    by blast
  from update_product_merges_current [of "shop 20 15 5" "''P1''" "''Tea''" "''Acme''" 7
      None None None "()" "\<lparr>products = [''P1'' \<mapsto> (tea 20 15 5)\<lparr>p_cost_price := 7\<rparr>],
         sales = [], dues_received = []\<rparr>"] run
  have b: "\<exists>written. products \<lparr>products = [''P1'' \<mapsto> (tea 20 15 5)\<lparr>p_cost_price := 7\<rparr>],
         sales = [], dues_received = []\<rparr> ''P1'' = Some written \<and>
      p_quantity written = 20 \<and> p_warehouse_quantity written = 15 \<and>
      p_store_quantity written = 5 \<and> p_cost_price written = 7 \<and>
      quantity_invariant written"
    by (auto simp: shop_def tea_def)
  have row: "products (shop 20 15 5) ''P1'' = Some (tea 20 15 5)"
    by (simp add: shop_def)
  have bad: "\<not> split_ok 20 15 9"
    by (simp add: split_ok_def)
  from update_product_merges_current [of "shop 20 15 5" "''P1''" "''Tea''" "''Acme''" 7
      None None "Some 9" _ _ "tea 20 15 5"] row bad
  have c: "\<exists>e. update_product ''P1'' ''Tea'' ''Acme'' 7 None None (Some 9) (shop 20 15 5) =
      (Inl e, shop 20 15 5)"
    by (simp add: tea_def)
  from none a run b row bad c show ?thesis by blast
qed

text \<open>
  Claim C2. \<^verbatim>\<open>add_product\<close>, \<^verbatim>\<open>update_product\<close>, \<^verbatim>\<open>transfer_inventory\<close> and the stock
  deduction of \<^verbatim>\<open>add_sale\<close> only ever write a product row with
  \<open>warehouse_quantity + store_quantity = quantity\<close> and all three non-negative, and
  after a successful call the product has such a row. Arguments to \<^verbatim>\<open>add_product\<close>, and
  merged values in \<^verbatim>\<open>update_product\<close>, that break the invariant are refused with the
  database unchanged.
\<close>
theorem product_writes_keep_quantity_invariant:
  "keeps_invariant (strip product_id) d
     (add_product product_id name company cost_price quantity warehouse_quantity
        store_quantity d) \<and>
   keeps_invariant product_id d
     (update_product product_id name company cost_price new_quantity warehouse_quantity
        store_quantity d) \<and>
   keeps_invariant product_id d
     (transfer_inventory product_id from_location to_location quantity note_text d) \<and>
   keeps_invariant product_id d
     (add_sale sale_type product_id product_name selling_price cost_price quantity
        paid_amount customer_name d) \<and>
   (\<not> split_ok quantity (case warehouse_quantity of None \<Rightarrow> quantity | Some w \<Rightarrow> w)
         (case store_quantity of None \<Rightarrow> 0 | Some s \<Rightarrow> s) \<longrightarrow>
      (\<exists>e. add_product product_id name company cost_price quantity warehouse_quantity
         store_quantity d = (Inl e, d))) \<and>
   (products d product_id = Some stored \<and>
    \<not> split_ok (case new_quantity of None \<Rightarrow> p_quantity stored | Some q \<Rightarrow> q)
          (case warehouse_quantity of None \<Rightarrow> p_warehouse_quantity stored | Some w \<Rightarrow> w)
          (case store_quantity of None \<Rightarrow> p_store_quantity stored | Some s \<Rightarrow> s) \<longrightarrow>
      (\<exists>e. update_product product_id name company cost_price new_quantity
         warehouse_quantity store_quantity d = (Inl e, d)))"
proof (intro conjI impI)
  show "keeps_invariant (strip product_id) d
     (add_product product_id name company cost_price quantity warehouse_quantity
        store_quantity d)"
    by (rule keeps_invariant_add_product)
  show "keeps_invariant product_id d
     (update_product product_id name company cost_price new_quantity warehouse_quantity
        store_quantity d)"
    by (rule keeps_invariant_update_product)
  show "keeps_invariant product_id d
     (transfer_inventory product_id from_location to_location quantity note_text d)"
    by (rule keeps_invariant_transfer_inventory)
  show "keeps_invariant product_id d
     (add_sale sale_type product_id product_name selling_price cost_price quantity
        paid_amount customer_name d)"
    by (rule keeps_invariant_add_sale)
next
  assume "\<not> split_ok quantity (case warehouse_quantity of None \<Rightarrow> quantity | Some w \<Rightarrow> w)
         (case store_quantity of None \<Rightarrow> 0 | Some s \<Rightarrow> s)"
  then show "\<exists>e. add_product product_id name company cost_price quantity warehouse_quantity
         store_quantity d = (Inl e, d)"
    by (rule add_product_rejects)
next
  assume "products d product_id = Some stored \<and>
    \<not> split_ok (case new_quantity of None \<Rightarrow> p_quantity stored | Some q \<Rightarrow> q)
          (case warehouse_quantity of None \<Rightarrow> p_warehouse_quantity stored | Some w \<Rightarrow> w)
          (case store_quantity of None \<Rightarrow> p_store_quantity stored | Some s \<Rightarrow> s)"
  then show "\<exists>e. update_product product_id name company cost_price new_quantity
         warehouse_quantity store_quantity d = (Inl e, d)"
    by (elim conjE) (rule update_product_rejects)
qed

theorem product_writes_keep_quantity_invariant_witness:
  "fst (add_product ''P1'' ''Tea'' ''Acme'' 6 20 None None empty_db) = Inr () \<and>
   (\<exists>p. products (snd (add_product ''P1'' ''Tea'' ''Acme'' 6 20 None None empty_db)) ''P1''
          = Some p \<and> quantity_invariant p) \<and>
   fst (transfer_inventory ''P1'' ''warehouse'' ''store'' 5 [] (shop 20 20 0)) = Inr () \<and>
   (\<exists>p. products (snd (transfer_inventory ''P1'' ''warehouse'' ''store'' 5 []
            (shop 20 20 0))) ''P1'' = Some p \<and> quantity_invariant p) \<and>
   fst (add_sale ''retail'' ''P1'' ''Tea'' 10 6 3 30 None (shop 20 15 5)) = Inr () \<and>
   (\<exists>p. products (snd (add_sale ''retail'' ''P1'' ''Tea'' 10 6 3 30 None (shop 20 15 5)))
          ''P1'' = Some p \<and> quantity_invariant p) \<and>
   fst (update_product ''P1'' ''Tea'' ''Acme'' 7 (Some 25) (Some 20) None (shop 20 15 5))
     = Inr () \<and>
   (\<exists>p. products (snd (update_product ''P1'' ''Tea'' ''Acme'' 7 (Some 25) (Some 20) None
            (shop 20 15 5))) ''P1'' = Some p \<and> quantity_invariant p) \<and>
   \<not> split_ok 20 (case Some 15 of None \<Rightarrow> 20 | Some w \<Rightarrow> w)
        (case Some 6 of None \<Rightarrow> 0 | Some s \<Rightarrow> s) \<and>
   (\<exists>e. add_product ''P2'' ''Tea'' ''Acme'' 6 20 (Some 15) (Some 6) (shop 20 15 5) =
      (Inl e, shop 20 15 5)) \<and>
   products (shop 20 15 5) ''P1'' = Some (tea 20 15 5) \<and>
   \<not> split_ok 20 15 9 \<and>
   (\<exists>e. update_product ''P1'' ''Tea'' ''Acme'' 6 None None (Some 9) (shop 20 15 5) =
      (Inl e, shop 20 15 5))"
proof -
  have a: "fst (add_product ''P1'' ''Tea'' ''Acme'' 6 20 None None empty_db) = Inr ()"
    by (simp add: run_defs empty_db_def strip_sample)
  have t: "fst (transfer_inventory ''P1'' ''warehouse'' ''store'' 5 [] (shop 20 20 0)) = Inr ()"
    by (simp add: run_defs shop_def tea_def strip_sample)
  have s: "fst (add_sale ''retail'' ''P1'' ''Tea'' 10 6 3 30 None (shop 20 15 5)) = Inr ()"
    by (simp add: run_defs shop_def tea_def strip_sample)
  have u: "fst (update_product ''P1'' ''Tea'' ''Acme'' 7 (Some 25) (Some 20) None
      (shop 20 15 5)) = Inr ()"
    by (simp add: run_defs shop_def tea_def strip_sample)
  have bad_add: "\<not> split_ok 20 (case Some 15 of None \<Rightarrow> 20 | Some w \<Rightarrow> w)
        (case Some 6 of None \<Rightarrow> 0 | Some s \<Rightarrow> s)"
    by (simp add: split_ok_def)
  have row: "products (shop 20 15 5) ''P1'' = Some (tea 20 15 5)"
    by (simp add: shop_def)
  have bad_upd: "\<not> split_ok 20 15 9"
    by (simp add: split_ok_def)
  have a': "\<exists>p. products (snd (add_product ''P1'' ''Tea'' ''Acme'' 6 20 None None empty_db))
      ''P1'' = Some p \<and> quantity_invariant p"
    using product_writes_keep_quantity_invariant [of "''P1''" empty_db "''Tea''" "''Acme''"
      6 20 None None] a
    by (simp add: keeps_invariant_def strip_sample)
  have t': "\<exists>p. products (snd (transfer_inventory ''P1'' ''warehouse'' ''store'' 5 []
            (shop 20 20 0))) ''P1'' = Some p \<and> quantity_invariant p"
    using product_writes_keep_quantity_invariant [of "''P1''" "shop 20 20 0" _ _ _ 5 _ _ _
      "''warehouse''" "''store''" "[]"] t
    by (simp add: keeps_invariant_def)
  have s': "\<exists>p. products (snd (add_sale ''retail'' ''P1'' ''Tea'' 10 6 3 30 None
      (shop 20 15 5))) ''P1'' = Some p \<and> quantity_invariant p"
    using product_writes_keep_quantity_invariant [of "''P1''" "shop 20 15 5" _ _ 6 3 _ _ _
      _ _ _ "''retail''" "''Tea''" 10 30 None] s
    by (simp add: keeps_invariant_def)
  have u': "\<exists>p. products (snd (update_product ''P1'' ''Tea'' ''Acme'' 7 (Some 25) (Some 20)
      None (shop 20 15 5))) ''P1'' = Some p \<and> quantity_invariant p"
    using product_writes_keep_quantity_invariant [of "''P1''" "shop 20 15 5" "''Tea''"
      "''Acme''" 7 _ "Some 20" None "Some 25"] u
    by (simp add: keeps_invariant_def)
  have r1: "\<exists>e. add_product ''P2'' ''Tea'' ''Acme'' 6 20 (Some 15) (Some 6) (shop 20 15 5) =
      (Inl e, shop 20 15 5)"
    using product_writes_keep_quantity_invariant [of "''P2''" "shop 20 15 5" "''Tea''"
      "''Acme''" 6 20 "Some 15" "Some 6"] bad_add
    by blast
  have r2: "\<exists>e. update_product ''P1'' ''Tea'' ''Acme'' 6 None None (Some 9) (shop 20 15 5) =
      (Inl e, shop 20 15 5)"
    using product_writes_keep_quantity_invariant [of "''P1''" "shop 20 15 5" "''Tea''"
      "''Acme''" 6 _ None "Some 9" None _ _ _ _ _ _ _ _ "tea 20 15 5"] row bad_upd
    by (simp add: tea_def)
  from a a' t t' s s' u u' bad_add r1 row bad_upd r2 show ?thesis by blast
qed

section \<open>Claims about customer dues\<close>

text \<open>
  Claim C7. \<^verbatim>\<open>get_customer_dues_by_name\<close> is the specification's formula: wholesale dues
  of the customer minus the customer's payments, floored at 0. So it is never negative,
  no call of \<^verbatim>\<open>add_dues_payment\<close> makes it larger, and a retail \<^verbatim>\<open>add_sale\<close>, whether
  it returns or raises, leaves it as it was.
\<close>

theorem customer_dues_by_name_formula:
  "get_customer_dues_by_name x d = outstanding_due_spec x d \<and>
   0 \<le> get_customer_dues_by_name x d \<and>
   (add_dues_payment customer_name amount note_text d = (r, d1) \<longrightarrow>
      get_customer_dues_by_name x d1 \<le> get_customer_dues_by_name x d) \<and>
   (add_sale ''retail'' product_id product_name selling_price cost_price quantity
      paid_amount sale_customer d = (r, d2) \<longrightarrow>
      get_customer_dues_by_name x d2 = get_customer_dues_by_name x d)"
proof (intro conjI impI)
  show "get_customer_dues_by_name x d = outstanding_due_spec x d"
    by (rule dues_by_name_eq_spec)
  show "0 \<le> get_customer_dues_by_name x d"
    by (simp add: get_customer_dues_by_name_def Let_def)
next
  assume "add_dues_payment customer_name amount note_text d = (r, d1)"
  then show "get_customer_dues_by_name x d1 \<le> get_customer_dues_by_name x d"
    by (rule dues_after_payment)
next
  assume "add_sale ''retail'' product_id product_name selling_price cost_price quantity
      paid_amount sale_customer d = (r, d2)"
  then show "get_customer_dues_by_name x d2 = get_customer_dues_by_name x d"
    by (rule dues_after_retail_sale)
qed

theorem customer_dues_by_name_formula_witness:
  "get_customer_dues_by_name ''Ali'' ali_db = 60 \<and>
   outstanding_due_spec ''Ali'' ali_db = 60 \<and>
   add_dues_payment ''Ali'' 60 [] ali_db =
     (Inr (), ali_db\<lparr>dues_received :=
        [\<lparr>d_customer_name = ''Ali'', d_amount_received = 60, d_notes = []\<rparr>]\<rparr>) \<and>
   get_customer_dues_by_name ''Ali'' (ali_db\<lparr>dues_received :=
        [\<lparr>d_customer_name = ''Ali'', d_amount_received = 60, d_notes = []\<rparr>]\<rparr>) = 0 \<and>
   add_sale ''retail'' ''P1'' ''Tea'' 10 6 1 0 None ali_db =
     (Inr (), ali_db\<lparr>sales := sales ali_db @ [sale_row ''retail'' ''P1'' ''Tea'' 10 6 1 0 None],
                     products := [''P1'' \<mapsto> tea 9 5 4]\<rparr>) \<and>
   get_customer_dues_by_name ''Ali''
     (ali_db\<lparr>sales := sales ali_db @ [sale_row ''retail'' ''P1'' ''Tea'' 10 6 1 0 None],
             products := [''P1'' \<mapsto> tea 9 5 4]\<rparr>) = 60 \<and>
   get_customer_dues_by_name ''Ali'' (ali_db\<lparr>dues_received :=
        [\<lparr>d_customer_name = ''Ali'', d_amount_received = 60, d_notes = []\<rparr>]\<rparr>)
     \<le> get_customer_dues_by_name ''Ali'' ali_db"
proof -
  have due: "get_customer_dues_by_name ''Ali'' ali_db = 60"
    by (simp add: get_customer_dues_by_name_def coalesce_sum_def ali_db_def shop_def
        sale_row_def)
  have pay: "add_dues_payment ''Ali'' 60 [] ali_db =
     (Inr (), ali_db\<lparr>dues_received :=
        [\<lparr>d_customer_name = ''Ali'', d_amount_received = 60, d_notes = []\<rparr>]\<rparr>)"
    by (simp add: run_defs strip_sample ali_db_def shop_def)
  have paid: "get_customer_dues_by_name ''Ali'' (ali_db\<lparr>dues_received :=
        [\<lparr>d_customer_name = ''Ali'', d_amount_received = 60, d_notes = []\<rparr>]\<rparr>) = 0"
    by (simp add: get_customer_dues_by_name_def coalesce_sum_def ali_db_def shop_def
        sale_row_def)
  have retail: "add_sale ''retail'' ''P1'' ''Tea'' 10 6 1 0 None ali_db =
     (Inr (), ali_db\<lparr>sales := sales ali_db @ [sale_row ''retail'' ''P1'' ''Tea'' 10 6 1 0 None],
                     products := [''P1'' \<mapsto> tea 9 5 4]\<rparr>)"
    by (simp add: run_defs shop_def tea_def strip_sample ali_db_def)
  from customer_dues_by_name_formula [of "''Ali''" ali_db "''Ali''" 60 "[]" "Inr ()"
      "ali_db\<lparr>dues_received :=
        [\<lparr>d_customer_name = ''Ali'', d_amount_received = 60, d_notes = []\<rparr>]\<rparr>"
      "''P1''" "''Tea''" 10 6 1 0 None
      "ali_db\<lparr>sales := sales ali_db @ [sale_row ''retail'' ''P1'' ''Tea'' 10 6 1 0 None],
                     products := [''P1'' \<mapsto> tea 9 5 4]\<rparr>"] due pay retail
  have "outstanding_due_spec ''Ali'' ali_db = 60 \<and>
     get_customer_dues_by_name ''Ali''
     (ali_db\<lparr>sales := sales ali_db @ [sale_row ''retail'' ''P1'' ''Tea'' 10 6 1 0 None],
             products := [''P1'' \<mapsto> tea 9 5 4]\<rparr>) = 60 \<and>
     get_customer_dues_by_name ''Ali'' (ali_db\<lparr>dues_received :=
        [\<lparr>d_customer_name = ''Ali'', d_amount_received = 60, d_notes = []\<rparr>]\<rparr>)
     \<le> get_customer_dues_by_name ''Ali'' ali_db"
    by simp
  with due pay paid retail show ?thesis by blast
qed

section \<open>Claims about the migration\<close>

text \<open>
  Claim C4 says that a second run of \<^verbatim>\<open>init_database\<close> changes neither schema nor
  data, from any starting database. From a database whose \<^verbatim>\<open>products\<close> table has
  neither location column, the first run adds the two columns with 0 in every row and
  skips the backfill, because its guard reads the column list taken before the columns
  were added. The second run finds the columns and splits the quantity: it changes the
  rows. Only the third run is a no-op. The schema is the same after each run.
\<close>

theorem second_init_database_backfills:
  "init_database legacy_db = Inr (migrated [legacy_row_split 0 0]) \<and>
   init_database (migrated [legacy_row_split 0 0]) = Inr (migrated [legacy_row_split 2 3]) \<and>
   migrated [legacy_row_split 2 3] \<noteq> migrated [legacy_row_split 0 0] \<and>
   init_database (migrated [legacy_row_split 2 3]) = Inr (migrated [legacy_row_split 2 3])"
  by (simp add: migration_defs legacy_db_def legacy_row_def migrated_def legacy_row_split_def)

end
